theory Spec2Isabelle
  imports Main "HOL-Library.Word"
begin

unbundle bit_operations_syntax

section \<open>Flow director configuration of the txgbe driver\<close>

text \<open>
  A shallow embedding of \<^verbatim>\<open>drivers/net/txgbe/txgbe_fdir.c\<close>. C integers of a fixed
  width are words; a function that returns an \<^verbatim>\<open>int\<close> status and writes through its
  pointer arguments returns the status together with the updated device.
\<close>

type_synonym u8 = "8 word"
type_synonym u16 = "16 word"
type_synonym u32 = "32 word"

subsection \<open>Status codes\<close>

text \<open>The negative \<^verbatim>\<open>errno\<close> values the file returns; \<open>Inr ()\<close> is the return value 0.\<close>

datatype errno = EINVAL | ENOTSUP | ETIMEDOUT | ENOSYS

type_synonym status = "errno + unit"

abbreviation ok :: status where
  "ok \<equiv> Inr ()"

subsection \<open>The address mask macros\<close>

text \<open>
  \<^verbatim>\<open>IPV6_ADDR_TO_MASK(ipaddr, ipv6m)\<close>: the loop over the sixteen bytes of the copied
  address, \<open>i\<close> the loop counter and \<open>ipv6m\<close> the mask built so far. A byte that is
  neither \<^verbatim>\<open>UINT8_MAX\<close> nor 0 makes the enclosing function return \<^verbatim>\<open>-EINVAL\<close>.
\<close>

function ipv6_addr_to_mask_loop :: "u8 list \<Rightarrow> nat \<Rightarrow> u16 \<Rightarrow> errno + u16" where
  "ipv6_addr_to_mask_loop ipv6_addr i ipv6m =
     (if i < 16 then
        (if ipv6_addr ! i = 0xFF then
           ipv6_addr_to_mask_loop ipv6_addr (i + 1) (ipv6m OR push_bit i 1)
         else if ipv6_addr ! i \<noteq> 0 then Inl EINVAL
         else ipv6_addr_to_mask_loop ipv6_addr (i + 1) ipv6m)
      else Inr ipv6m)"
  by pat_completeness auto
termination
  by (relation "measure (\<lambda>(a, i, m). 16 - i)") auto

definition IPV6_ADDR_TO_MASK :: "u8 list \<Rightarrow> errno + u16" where
  "IPV6_ADDR_TO_MASK ipaddr = ipv6_addr_to_mask_loop ipaddr 0 0"

text \<open>
  \<^verbatim>\<open>IPV6_MASK_TO_ADDR(ipv6m, ipaddr)\<close>: every one of the sixteen bytes of the local
  buffer is assigned, then the buffer is copied out.
\<close>

function ipv6_mask_to_addr_loop :: "u16 \<Rightarrow> nat \<Rightarrow> u8 list \<Rightarrow> u8 list" where
  "ipv6_mask_to_addr_loop ipv6m i ipv6_addr =
     (if i < 16 then
        ipv6_mask_to_addr_loop ipv6m (i + 1)
          (ipv6_addr[i := (if ipv6m AND push_bit i 1 \<noteq> 0 then 0xFF else 0)])
      else ipv6_addr)"
  by pat_completeness auto
termination
  by (relation "measure (\<lambda>(m, i, a). 16 - i)") auto

definition IPV6_MASK_TO_ADDR :: "u16 \<Rightarrow> u8 list" where
  "IPV6_MASK_TO_ADDR ipv6m = ipv6_mask_to_addr_loop ipv6m 0 (replicate 16 0)"

subsection \<open>Bit reversal of the port masks\<close>

text \<open>
  The four swap stages of \<^verbatim>\<open>reverse_fdir_bmks\<close> on the 32-bit local \<^verbatim>\<open>mask\<close>:
  neighbouring bits, pairs, nibbles, and the two bytes of each 16-bit half.
\<close>

definition fdir_bmks_swaps :: "u32 \<Rightarrow> u32" where
  "fdir_bmks_swaps mask0 =
     (let mask1 = push_bit 1 (mask0 AND 0x55555555) OR drop_bit 1 (mask0 AND 0xAAAAAAAA);
          mask2 = push_bit 2 (mask1 AND 0x33333333) OR drop_bit 2 (mask1 AND 0xCCCCCCCC);
          mask3 = push_bit 4 (mask2 AND 0x0F0F0F0F) OR drop_bit 4 (mask2 AND 0xF0F0F0F0)
      in push_bit 8 (mask3 AND 0x00FF00FF) OR drop_bit 8 (mask3 AND 0xFF00FF00))"

definition reverse_fdir_bmks :: "u16 \<Rightarrow> u16 \<Rightarrow> u32" where
  "reverse_fdir_bmks hi_dword lo_dword =
     fdir_bmks_swaps (push_bit 16 (ucast hi_dword) OR ucast lo_dword)"

subsection \<open>Constants of the register header\<close>

text \<open>
  The file includes \<^verbatim>\<open>base/txgbe.h\<close>, whose register macros it uses by name only.
  The functions below take the values of these macros as a parameter, one field for
  each macro; a macro with an argument is a function. \<^verbatim>\<open>RTE_BIG_ENDIAN\<close> tells whether
  the host stores integers most significant byte first, which decides what
  \<^verbatim>\<open>rte_be_to_cpu_16\<close> does.
\<close>

record txgbe_macros =
  TXGBE_FDIR_INIT_DONE_POLL :: nat
  TXGBE_ATR_BUCKET_HASH_KEY :: u32
  TXGBE_ATR_SIGNATURE_HASH_KEY :: u32
  TXGBE_FDIRCTL_INITDONE :: u32
  TXGBE_FDIRCTL_MAXLEN :: "u32 \<Rightarrow> u32"
  TXGBE_FDIRCTL_FULLTHR :: "u32 \<Rightarrow> u32"
  TXGBE_FDIRCTL_BUF_64K :: u32
  TXGBE_FDIRCTL_BUF_128K :: u32
  TXGBE_FDIRCTL_BUF_256K :: u32
  TXGBD_FDIRCTL_BUF_BYTE :: "u32 \<Rightarrow> u32"
  TXGBE_FDIRCTL_REPORT_MATCH :: u32
  TXGBE_FDIRCTL_REPORT_ALWAYS :: u32
  TXGBE_FDIRCTL_PERFECT :: u32
  TXGBE_FDIRCTL_DROPQP :: "u32 \<Rightarrow> u32"
  TXGBE_FDIRMSK_POOL :: u32
  TXGBE_FDIRMSK_L4P :: u32
  TXGBE_FDIRIP6MSK_DST :: "u32 \<Rightarrow> u32"
  TXGBE_FDIRIP6MSK_SRC :: "u32 \<Rightarrow> u32"
  TXGBE_FDIRFLEXCFG_BASE_MAC :: u32
  TXGBE_FDIRFLEXCFG_DIA :: u32
  TXGBE_FDIRFLEXCFG_OFST_MASK :: u32
  TXGBE_FDIRFLEXCFG_OFST :: "u32 \<Rightarrow> u32"
  TXGBD_FDIRFLEXCFG_OFST :: "u32 \<Rightarrow> u32"
  TXGBE_FDIRFLEXCFG_ALL :: "u32 \<Rightarrow> nat \<Rightarrow> u32"
  RTE_BIG_ENDIAN :: bool

text \<open>
  Modelled from the spec: \<^verbatim>\<open>base/txgbe_regs.h\<close> is not among the sources. The spec
  names the fields of the control register (buffer-size class, report level, mode, drop
  queue, bucket depth, low-count threshold, init-done bit), the flag bits of the
  field-mask register and a bank of flexible-byte registers "each packing 4 sub-field
  slots"; this assignment gives each of them a place of its own, a slot being one byte
  with the base in bits 0-1, the ignore bit at bit 2 and the offset in bits 3-7. It is
  used where a function is evaluated at a concrete input.
\<close>

definition txgbe_regs :: txgbe_macros where
  "txgbe_regs = \<lparr>
     TXGBE_FDIR_INIT_DONE_POLL = 10,
     TXGBE_ATR_BUCKET_HASH_KEY = 0x3DAD3DAD,
     TXGBE_ATR_SIGNATURE_HASH_KEY = 0x174D3614,
     TXGBE_FDIRCTL_INITDONE = 0x8,
     TXGBE_FDIRCTL_MAXLEN = (\<lambda>v. push_bit 24 (v AND 0xF)),
     TXGBE_FDIRCTL_FULLTHR = (\<lambda>v. push_bit 28 (v AND 0xF)),
     TXGBE_FDIRCTL_BUF_64K = 1,
     TXGBE_FDIRCTL_BUF_128K = 2,
     TXGBE_FDIRCTL_BUF_256K = 3,
     TXGBD_FDIRCTL_BUF_BYTE = (\<lambda>r. push_bit (15 + unat (r AND 0x3)) 1),
     TXGBE_FDIRCTL_REPORT_MATCH = 0x20,
     TXGBE_FDIRCTL_REPORT_ALWAYS = 0xA0,
     TXGBE_FDIRCTL_PERFECT = 0x10,
     TXGBE_FDIRCTL_DROPQP = (\<lambda>v. push_bit 8 (v AND 0x7F)),
     TXGBE_FDIRMSK_POOL = 0x4,
     TXGBE_FDIRMSK_L4P = 0x8,
     TXGBE_FDIRIP6MSK_DST = (\<lambda>v. push_bit 16 (v AND 0xFFFF)),
     TXGBE_FDIRIP6MSK_SRC = (\<lambda>v. v AND 0xFFFF),
     TXGBE_FDIRFLEXCFG_BASE_MAC = 0,
     TXGBE_FDIRFLEXCFG_DIA = 0x4,
     TXGBE_FDIRFLEXCFG_OFST_MASK = 0xF8,
     TXGBE_FDIRFLEXCFG_OFST = (\<lambda>v. push_bit 3 (v AND 0x1F)),
     TXGBD_FDIRFLEXCFG_OFST = (\<lambda>r. drop_bit 3 r AND 0x1F),
     TXGBE_FDIRFLEXCFG_ALL = (\<lambda>v i. push_bit (8 * i) (v AND 0xFF)),
     RTE_BIG_ENDIAN = False \<rparr>"

text \<open>
  \<^verbatim>\<open>rte_be_to_cpu_16\<close> (DPDK's byte-order header): the identity on a big-endian host,
  a swap of the two bytes on a little-endian one.
\<close>

definition rte_be_to_cpu_16 :: "txgbe_macros \<Rightarrow> u16 \<Rightarrow> u16" where
  "rte_be_to_cpu_16 H x =
     (if RTE_BIG_ENDIAN H then x else push_bit 8 x OR drop_bit 8 x)"

subsection \<open>Device registers\<close>

text \<open>
  The registers the file reads and writes, by name; \<^verbatim>\<open>TXGBE_FDIRFLEXCFG(i)\<close> and
  \<^verbatim>\<open>TXGBE_PBRXSIZE(i)\<close> are indexed. \<open>regs\<close> holds what was last written. The
  control register \<^verbatim>\<open>TXGBE_FDIRCTL\<close> carries the init-done bit, which the device
  owns: its \<open>n\<close>-th read returns \<open>fdirctl_status n\<close>, and \<open>fdirctl_reads\<close> counts the
  reads made so far. \<open>msec_slept\<close> adds up the arguments of \<^verbatim>\<open>msec_delay\<close>.
\<close>

datatype reg =
    TXGBE_FDIRCTL
  | TXGBE_FDIRBKTHKEY
  | TXGBE_FDIRSIGHKEY
  | TXGBE_FDIRMSK
  | TXGBE_FDIRTCPMSK
  | TXGBE_FDIRUDPMSK
  | TXGBE_FDIRSCTPMSK
  | TXGBE_FDIRSIP4MSK
  | TXGBE_FDIRDIP4MSK
  | TXGBE_FDIRIP6MSK
  | TXGBE_FDIRFLEXCFG nat
  | TXGBE_PBRXSIZE nat

record txgbe_hw =
  regs :: "reg \<Rightarrow> u32"
  fdirctl_status :: "nat \<Rightarrow> u32"
  fdirctl_reads :: nat
  msec_slept :: nat

definition rd32 :: "txgbe_hw \<Rightarrow> reg \<Rightarrow> u32 \<times> txgbe_hw" where
  "rd32 hw r =
     (if r = TXGBE_FDIRCTL
      then (fdirctl_status hw (fdirctl_reads hw), hw\<lparr>fdirctl_reads := fdirctl_reads hw + 1\<rparr>)
      else (regs hw r, hw))"

definition wr32 :: "txgbe_hw \<Rightarrow> reg \<Rightarrow> u32 \<Rightarrow> txgbe_hw" where
  "wr32 hw r v = hw\<lparr>regs := (regs hw)(r := v)\<rparr>"

definition msec_delay :: "txgbe_hw \<Rightarrow> nat \<Rightarrow> txgbe_hw" where
  "msec_delay hw n = hw\<lparr>msec_slept := msec_slept hw + n\<rparr>"

text \<open>\<^verbatim>\<open>txgbe_flush\<close> forces posted writes out; it changes nothing the model records.\<close>

definition txgbe_flush :: "txgbe_hw \<Rightarrow> txgbe_hw" where
  "txgbe_flush hw = hw"

subsection \<open>Configuration and driver state\<close>

text \<open>
  The enumerations of \<^verbatim>\<open>struct rte_fdir_conf\<close>. A C enumeration can hold a value that
  is none of its enumerators, which the \<^verbatim>\<open>default:\<close> branches catch; the last
  constructor of \<open>rte_fdir_pballoc_type\<close> and of \<open>rte_fdir_status_mode\<close> stands for
  such a value.
\<close>

datatype rte_fdir_mode =
    RTE_FDIR_MODE_NONE
  | RTE_FDIR_MODE_SIGNATURE
  | RTE_FDIR_MODE_PERFECT
  | RTE_FDIR_MODE_PERFECT_MAC_VLAN
  | RTE_FDIR_MODE_PERFECT_TUNNEL

datatype rte_fdir_pballoc_type =
    RTE_FDIR_PBALLOC_64K
  | RTE_FDIR_PBALLOC_128K
  | RTE_FDIR_PBALLOC_256K
  | RTE_FDIR_PBALLOC_other

datatype rte_fdir_status_mode =
    RTE_FDIR_NO_REPORT_STATUS
  | RTE_FDIR_REPORT_STATUS
  | RTE_FDIR_REPORT_STATUS_ALWAYS
  | RTE_FDIR_REPORT_STATUS_other

datatype rte_eth_payload_type =
    RTE_ETH_PAYLOAD_UNKNOWN
  | RTE_ETH_RAW_PAYLOAD
  | RTE_ETH_L2_PAYLOAD
  | RTE_ETH_L3_PAYLOAD
  | RTE_ETH_L4_PAYLOAD

text \<open>
  \<^verbatim>\<open>struct rte_eth_fdir_masks\<close>, with the members of the nested \<^verbatim>\<open>ipv4_mask\<close> and
  \<^verbatim>\<open>ipv6_mask\<close> side by side. An IPv6 address is the sixteen bytes that
  \<^verbatim>\<open>rte_memcpy\<close> copies.
\<close>

record rte_eth_fdir_masks =
  vlan_tci_mask_conf :: u16
  ipv4_mask_src_ip :: u32
  ipv4_mask_dst_ip :: u32
  ipv6_mask_src_ip :: "u8 list"
  ipv6_mask_dst_ip :: "u8 list"
  src_port_mask_conf :: u16
  dst_port_mask_conf :: u16

record rte_eth_flex_payload_cfg =
  payload_type :: rte_eth_payload_type
  src_offset :: "u16 list"

record rte_eth_fdir_flex_mask =
  flow_type :: u16
  mask_bytes :: "u8 list"

text \<open>
  \<^verbatim>\<open>struct rte_eth_fdir_flex_conf\<close>: \<open>flex_set\<close> is the first \<^verbatim>\<open>nb_payloads\<close> entries of
  the array of that name and \<open>flex_mask\<close> the first \<^verbatim>\<open>nb_flexmasks\<close> entries of its
  array, so the two counts are the lengths of the lists.
\<close>

record rte_eth_fdir_flex_conf =
  flex_set :: "rte_eth_flex_payload_cfg list"
  flex_mask :: "rte_eth_fdir_flex_mask list"

record rte_fdir_conf =
  mode :: rte_fdir_mode
  pballoc :: rte_fdir_pballoc_type
  status :: rte_fdir_status_mode
  drop_queue :: u8
  mask_conf :: rte_eth_fdir_masks
  flex_conf :: rte_eth_fdir_flex_conf

text \<open>
  \<^verbatim>\<open>struct txgbe_hw_fdir_mask\<close> and \<^verbatim>\<open>struct txgbe_hw_fdir_info\<close>, with the members
  this file uses.
\<close>

record txgbe_hw_fdir_mask =
  vlan_tci_mask :: u16
  src_ipv4_mask :: u32
  dst_ipv4_mask :: u32
  src_ipv6_mask :: u16
  dst_ipv6_mask :: u16
  src_port_mask :: u16
  dst_port_mask :: u16
  flex_bytes_mask :: u16

record txgbe_hw_fdir_info =
  mask_info :: txgbe_hw_fdir_mask
  flex_bytes_offset :: u8

text \<open>
  \<^verbatim>\<open>struct rte_eth_dev\<close>, as far as the file reaches into it: the configuration
  \<^verbatim>\<open>dev->data->dev_conf.fdir_conf\<close>, the hardware \<^verbatim>\<open>TXGBE_DEV_HW(dev)\<close> and the driver's
  record of the programmed masks \<^verbatim>\<open>TXGBE_DEV_FDIR(dev)\<close>.
\<close>

record rte_eth_dev =
  fdir_conf :: rte_fdir_conf
  hw :: txgbe_hw
  fdir :: txgbe_hw_fdir_info

definition RTE_ETH_FLOW_UNKNOWN :: u16 where
  "RTE_ETH_FLOW_UNKNOWN = 0"

definition TXGBE_DEFAULT_FLEXBYTES_OFFSET :: u32 where
  "TXGBE_DEFAULT_FLEXBYTES_OFFSET = 12"

definition TXGBE_MAX_FLX_SOURCE_OFF :: u16 where
  "TXGBE_MAX_FLX_SOURCE_OFF = 62"

subsection \<open>Enabling the flow director\<close>

text \<open>
  The polling loop that \<^verbatim>\<open>txgbe_fdir_enable\<close> and \<^verbatim>\<open>txgbe_fdir_set_flexbytes_offset\<close>
  both contain, from the value \<open>i\<close> of the loop counter; the result is the counter
  when the loop is left.
\<close>

function fdir_init_done_poll :: "txgbe_macros \<Rightarrow> nat \<Rightarrow> txgbe_hw \<Rightarrow> nat \<times> txgbe_hw" where
  "fdir_init_done_poll H i hw0 =
     (if i < TXGBE_FDIR_INIT_DONE_POLL H then
        (case rd32 hw0 TXGBE_FDIRCTL of (v, hw1) \<Rightarrow>
           if v AND TXGBE_FDIRCTL_INITDONE H \<noteq> 0 then (i, hw1)
           else fdir_init_done_poll H (i + 1) (msec_delay hw1 1))
      else (i, hw0))"
  by pat_completeness auto
termination
  by (relation "measure (\<lambda>(H, i, hw0). TXGBE_FDIR_INIT_DONE_POLL H - i)") auto

definition txgbe_fdir_enable :: "txgbe_macros \<Rightarrow> txgbe_hw \<Rightarrow> u32 \<Rightarrow> status \<times> txgbe_hw" where
  "txgbe_fdir_enable H hw0 fdirctrl0 =
     (let hw1 = wr32 hw0 TXGBE_FDIRBKTHKEY (TXGBE_ATR_BUCKET_HASH_KEY H);
          hw2 = wr32 hw1 TXGBE_FDIRSIGHKEY (TXGBE_ATR_SIGNATURE_HASH_KEY H);
          fdirctrl = fdirctrl0 OR TXGBE_FDIRCTL_MAXLEN H 0xA OR TXGBE_FDIRCTL_FULLTHR H 4;
          hw3 = wr32 hw2 TXGBE_FDIRCTL fdirctrl;
          hw4 = txgbe_flush hw3
      in case fdir_init_done_poll H 0 hw4 of (i, hw5) \<Rightarrow>
           if i \<ge> TXGBE_FDIR_INIT_DONE_POLL H then (Inl ETIMEDOUT, hw5)
           else (ok, hw5))"

subsection \<open>Control flags\<close>

text \<open>
  \<^verbatim>\<open>configure_fdir_flags\<close>: the values left in \<^verbatim>\<open>*fdirctrl\<close> and \<^verbatim>\<open>*flex\<close> on
  success. On an error the caller returns without reading them.
\<close>

definition configure_fdir_flags :: "txgbe_macros \<Rightarrow> rte_fdir_conf \<Rightarrow> errno + (u32 \<times> u32)" where
  "configure_fdir_flags H conf =
     (case (case pballoc conf of
              RTE_FDIR_PBALLOC_64K \<Rightarrow> Inr (0 OR TXGBE_FDIRCTL_BUF_64K H)
            | RTE_FDIR_PBALLOC_128K \<Rightarrow> Inr (0 OR TXGBE_FDIRCTL_BUF_128K H)
            | RTE_FDIR_PBALLOC_256K \<Rightarrow> Inr (0 OR TXGBE_FDIRCTL_BUF_256K H)
            | RTE_FDIR_PBALLOC_other \<Rightarrow> Inl EINVAL) of
        Inl e \<Rightarrow> Inl e
      | Inr fdirctrl1 \<Rightarrow>
         (case (case status conf of
                  RTE_FDIR_NO_REPORT_STATUS \<Rightarrow> Inr fdirctrl1
                | RTE_FDIR_REPORT_STATUS \<Rightarrow> Inr (fdirctrl1 OR TXGBE_FDIRCTL_REPORT_MATCH H)
                | RTE_FDIR_REPORT_STATUS_ALWAYS \<Rightarrow> Inr (fdirctrl1 OR TXGBE_FDIRCTL_REPORT_ALWAYS H)
                | RTE_FDIR_REPORT_STATUS_other \<Rightarrow> Inl EINVAL) of
            Inl e \<Rightarrow> Inl e
          | Inr fdirctrl2 \<Rightarrow>
             (let flex = (0 OR TXGBE_FDIRFLEXCFG_BASE_MAC H)
                           OR TXGBE_FDIRFLEXCFG_OFST H (TXGBE_DEFAULT_FLEXBYTES_OFFSET div 2)
              in case mode conf of
                   RTE_FDIR_MODE_SIGNATURE \<Rightarrow> Inr (fdirctrl2, flex)
                 | RTE_FDIR_MODE_PERFECT \<Rightarrow>
                     Inr (fdirctrl2 OR TXGBE_FDIRCTL_PERFECT H
                            OR TXGBE_FDIRCTL_DROPQP H (ucast (drop_queue conf)), flex)
                 | _ \<Rightarrow> Inl EINVAL)))"

subsection \<open>Programming the input masks\<close>

definition txgbe_fdir_set_input_mask :: "txgbe_macros \<Rightarrow> rte_eth_dev \<Rightarrow> status \<times> rte_eth_dev" where
  "txgbe_fdir_set_input_mask H dev =
     (let info = fdir dev; md = mode (fdir_conf dev) in
      if md \<noteq> RTE_FDIR_MODE_SIGNATURE \<and> md \<noteq> RTE_FDIR_MODE_PERFECT then (Inl ENOTSUP, dev)
      else
        let fdirm0 = TXGBE_FDIRMSK_POOL H;
            fdirm = (if dst_port_mask (mask_info info) = 0 \<and> src_port_mask (mask_info info) = 0
                     then fdirm0 OR TXGBE_FDIRMSK_L4P H else fdirm0);
            hw1 = wr32 (hw dev) TXGBE_FDIRMSK fdirm;
            fdirtcpm = reverse_fdir_bmks (rte_be_to_cpu_16 H (dst_port_mask (mask_info info)))
                                         (rte_be_to_cpu_16 H (src_port_mask (mask_info info)));
            hw2 = wr32 hw1 TXGBE_FDIRTCPMSK (NOT fdirtcpm);
            hw3 = wr32 hw2 TXGBE_FDIRUDPMSK (NOT fdirtcpm);
            hw4 = wr32 hw3 TXGBE_FDIRSCTPMSK (NOT fdirtcpm);
            hw5 = wr32 hw4 TXGBE_FDIRSIP4MSK (NOT (src_ipv4_mask (mask_info info)));
            hw6 = wr32 hw5 TXGBE_FDIRDIP4MSK (NOT (dst_ipv4_mask (mask_info info)));
            hw7 = (if md = RTE_FDIR_MODE_SIGNATURE then
                     let fdiripv6m = TXGBE_FDIRIP6MSK_DST H (ucast (dst_ipv6_mask (mask_info info)))
                                     OR TXGBE_FDIRIP6MSK_SRC H (ucast (src_ipv6_mask (mask_info info)))
                     in wr32 hw6 TXGBE_FDIRIP6MSK (NOT fdiripv6m)
                   else hw6)
        in (ok, dev\<lparr>hw := hw7\<rparr>))"

text \<open>
  \<^verbatim>\<open>txgbe_fdir_store_input_mask\<close>. \<open>mask1\<close> is \<^verbatim>\<open>info->mask\<close> after the \<^verbatim>\<open>memset\<close>
  and the five assignments that precede the two uses of \<^verbatim>\<open>IPV6_ADDR_TO_MASK\<close>; the
  \<^verbatim>\<open>return -EINVAL\<close> inside the macro leaves the function at that point.
\<close>

definition txgbe_fdir_store_input_mask :: "rte_eth_dev \<Rightarrow> status \<times> rte_eth_dev" where
  "txgbe_fdir_store_input_mask dev =
     (let input_mask = mask_conf (fdir_conf dev); md = mode (fdir_conf dev); info = fdir dev in
      if md \<noteq> RTE_FDIR_MODE_SIGNATURE \<and> md \<noteq> RTE_FDIR_MODE_PERFECT then (Inl ENOTSUP, dev)
      else
        let mask0 = \<lparr> vlan_tci_mask = 0, src_ipv4_mask = 0, dst_ipv4_mask = 0,
                      src_ipv6_mask = 0, dst_ipv6_mask = 0, src_port_mask = 0,
                      dst_port_mask = 0, flex_bytes_mask = 0 \<rparr>;
            mask1 = mask0\<lparr> vlan_tci_mask := vlan_tci_mask_conf input_mask,
                           src_port_mask := src_port_mask_conf input_mask,
                           dst_port_mask := dst_port_mask_conf input_mask,
                           src_ipv4_mask := ipv4_mask_src_ip input_mask,
                           dst_ipv4_mask := ipv4_mask_dst_ip input_mask \<rparr>;
            dev1 = dev\<lparr>fdir := info\<lparr>mask_info := mask1\<rparr>\<rparr>
        in case IPV6_ADDR_TO_MASK (ipv6_mask_src_ip input_mask) of
             Inl e \<Rightarrow> (Inl e, dev1)
           | Inr src_ipv6m \<Rightarrow>
              (case IPV6_ADDR_TO_MASK (ipv6_mask_dst_ip input_mask) of
                 Inl e \<Rightarrow> (Inl e, dev1)
               | Inr dst_ipv6m \<Rightarrow>
                   (ok, dev\<lparr>fdir := info\<lparr>mask_info :=
                          mask1\<lparr>src_ipv6_mask := src_ipv6m, dst_ipv6_mask := dst_ipv6m\<rparr>\<rparr>\<rparr>)))"

subsection \<open>The flexible bytes\<close>

text \<open>
  The loop of \<^verbatim>\<open>txgbe_fdir_set_flexbytes_offset\<close> over the 64 slots. \<^verbatim>\<open>~0UL\<close> enters
  \<^verbatim>\<open>TXGBE_FDIRFLEXCFG_ALL\<close> as the word of 32 ones.
\<close>

function set_flexbytes_offset_loop :: "txgbe_macros \<Rightarrow> u16 \<Rightarrow> nat \<Rightarrow> txgbe_hw \<Rightarrow> txgbe_hw" where
  "set_flexbytes_offset_loop H offset i hw0 =
     (if i < 64 then
        (case rd32 hw0 (TXGBE_FDIRFLEXCFG (i div 4)) of (flexreg0, hw1) \<Rightarrow>
           let flex = TXGBE_FDIRFLEXCFG_BASE_MAC H OR TXGBE_FDIRFLEXCFG_OFST H (ucast offset div 2);
               flexreg1 = flexreg0 AND NOT (TXGBE_FDIRFLEXCFG_ALL H (- 1) (i mod 4));
               flexreg2 = flexreg1 OR TXGBE_FDIRFLEXCFG_ALL H flex (i mod 4)
           in set_flexbytes_offset_loop H offset (i + 1)
                (wr32 hw1 (TXGBE_FDIRFLEXCFG (i div 4)) flexreg2))
      else hw0)"
  by pat_completeness auto
termination
  by (relation "measure (\<lambda>(H, offset, i, hw0). 64 - i)") auto

definition txgbe_fdir_set_flexbytes_offset :: "txgbe_macros \<Rightarrow> rte_eth_dev \<Rightarrow> u16 \<Rightarrow> status \<times> rte_eth_dev" where
  "txgbe_fdir_set_flexbytes_offset H dev offset =
     (let hw1 = set_flexbytes_offset_loop H offset 0 (hw dev);
          hw2 = txgbe_flush hw1
      in case fdir_init_done_poll H 0 hw2 of (i, hw3) \<Rightarrow> (ok, dev\<lparr>hw := hw3\<rparr>))"

text \<open>
  \<^verbatim>\<open>txgbe_set_fdir_flex_conf\<close>, first loop: the payload descriptors in turn, \<open>flex\<close> the
  value built so far. \<^verbatim>\<open>src_offset[0] + 1\<close> is computed in \<^verbatim>\<open>int\<close>, so it does not wrap
  at 16 bits.
\<close>

fun flex_payload_loop :: "txgbe_macros \<Rightarrow> rte_eth_flex_payload_cfg list \<Rightarrow> u32 \<Rightarrow> errno + u32" where
  "flex_payload_loop H [] flex = Inr flex"
| "flex_payload_loop H (flex_cfg # rest) flex =
     (if payload_type flex_cfg \<noteq> RTE_ETH_RAW_PAYLOAD then Inl EINVAL
      else if (src_offset flex_cfg ! 0) AND 0x1 = 0
              \<and> uint (src_offset flex_cfg ! 1) = uint (src_offset flex_cfg ! 0) + 1
              \<and> src_offset flex_cfg ! 0 \<le> TXGBE_MAX_FLX_SOURCE_OFF
      then flex_payload_loop H rest
             ((flex AND NOT (TXGBE_FDIRFLEXCFG_OFST_MASK H))
                OR TXGBE_FDIRFLEXCFG_OFST H (ucast (src_offset flex_cfg ! 0) div 2))
      else Inl EINVAL)"

text \<open>
  Second loop: the mask descriptors in turn. \<open>flexbytes\<close> is the local of that name,
  which keeps the value of the last descriptor.
\<close>

fun flex_mask_loop :: "txgbe_macros \<Rightarrow> rte_eth_fdir_flex_mask list \<Rightarrow> u32 \<Rightarrow> u16 \<Rightarrow> errno + (u32 \<times> u16)" where
  "flex_mask_loop H [] flex flexbytes = Inr (flex, flexbytes)"
| "flex_mask_loop H (fm # rest) flex flexbytes0 =
     (if flow_type fm \<noteq> RTE_ETH_FLOW_UNKNOWN then Inl EINVAL
      else
        let flexbytes = (ucast ((push_bit 8 (ucast (mask_bytes fm ! 1) :: u32) AND 0xFF00)
                                  OR (ucast (mask_bytes fm ! 0) AND 0xFF)) :: u16)
        in if flexbytes = 0xFFFF
           then flex_mask_loop H rest (flex AND NOT (TXGBE_FDIRFLEXCFG_DIA H)) flexbytes
           else if flexbytes \<noteq> 0 then Inl EINVAL
           else flex_mask_loop H rest flex flexbytes)"

text \<open>Third loop: the resulting \<open>flex\<close> is merged into each of the 64 slots.\<close>

function set_fdir_flex_conf_loop :: "txgbe_macros \<Rightarrow> u32 \<Rightarrow> nat \<Rightarrow> txgbe_hw \<Rightarrow> txgbe_hw" where
  "set_fdir_flex_conf_loop H flex i hw0 =
     (if i < 64 then
        (case rd32 hw0 (TXGBE_FDIRFLEXCFG (i div 4)) of (flexreg0, hw1) \<Rightarrow>
           let flexreg1 = flexreg0 AND NOT (TXGBE_FDIRFLEXCFG_ALL H (- 1) (i mod 4));
               flexreg2 = flexreg1 OR TXGBE_FDIRFLEXCFG_ALL H flex (i mod 4)
           in set_fdir_flex_conf_loop H flex (i + 1)
                (wr32 hw1 (TXGBE_FDIRFLEXCFG (i div 4)) flexreg2))
      else hw0)"
  by pat_completeness auto
termination
  by (relation "measure (\<lambda>(H, flex, i, hw0). 64 - i)") auto

text \<open>
  \<^verbatim>\<open>conf\<close> is the address of a member of \<^verbatim>\<open>dev->data\<close>, so the \<^verbatim>\<open>NULL\<close> test at the
  head of the function never fires.
\<close>

definition txgbe_set_fdir_flex_conf :: "txgbe_macros \<Rightarrow> rte_eth_dev \<Rightarrow> u32 \<Rightarrow> status \<times> rte_eth_dev" where
  "txgbe_set_fdir_flex_conf H dev flex0 =
     (let conf = flex_conf (fdir_conf dev); info = fdir dev;
          flex1 = flex0 OR TXGBE_FDIRFLEXCFG_DIA H
      in case flex_payload_loop H (flex_set conf) flex1 of
           Inl e \<Rightarrow> (Inl e, dev)
         | Inr flex2 \<Rightarrow>
            (case flex_mask_loop H (flex_mask conf) flex2 0 of
               Inl e \<Rightarrow> (Inl e, dev)
             | Inr (flex, flexbytes) \<Rightarrow>
                 let info1 = info\<lparr>mask_info := (mask_info info)
                                \<lparr>flex_bytes_mask := (if flexbytes \<noteq> 0 then 0xFFFF else 0)\<rparr>\<rparr>;
                     info2 = info1\<lparr>flex_bytes_offset := ucast (TXGBD_FDIRFLEXCFG_OFST H flex * 2)\<rparr>;
                     hw1 = set_fdir_flex_conf_loop H flex 0 (hw dev)
                 in (ok, dev\<lparr>hw := hw1, fdir := info2\<rparr>)))"

text \<open>
  The test that the first loop of \<^verbatim>\<open>txgbe_set_fdir_flex_conf\<close> applies to a payload
  descriptor: a descriptor that passes it is valid on its own.
\<close>

definition flex_payload_ok :: "rte_eth_flex_payload_cfg \<Rightarrow> bool" where
  "flex_payload_ok flex_cfg \<longleftrightarrow>
     payload_type flex_cfg = RTE_ETH_RAW_PAYLOAD
     \<and> (src_offset flex_cfg ! 0) AND 0x1 = 0
     \<and> uint (src_offset flex_cfg ! 1) = uint (src_offset flex_cfg ! 0) + 1
     \<and> src_offset flex_cfg ! 0 \<le> TXGBE_MAX_FLX_SOURCE_OFF"

subsection \<open>The configuration pass\<close>

text \<open>The loop of \<^verbatim>\<open>txgbe_fdir_configure\<close> that clears the packet buffers 1 to 7.\<close>

function pbrxsize_clear_loop :: "nat \<Rightarrow> txgbe_hw \<Rightarrow> txgbe_hw" where
  "pbrxsize_clear_loop i hw0 =
     (if i < 8 then pbrxsize_clear_loop (i + 1) (wr32 hw0 (TXGBE_PBRXSIZE i) 0) else hw0)"
  by pat_completeness auto
termination
  by (relation "measure (\<lambda>(i, hw0). 8 - i)") auto

definition txgbe_fdir_configure :: "txgbe_macros \<Rightarrow> rte_eth_dev \<Rightarrow> status \<times> rte_eth_dev" where
  "txgbe_fdir_configure H dev =
     (let md = mode (fdir_conf dev) in
      if md \<noteq> RTE_FDIR_MODE_SIGNATURE \<and> md \<noteq> RTE_FDIR_MODE_PERFECT then (Inl ENOSYS, dev)
      else case configure_fdir_flags H (fdir_conf dev) of
        Inl err \<Rightarrow> (Inl err, dev)
      | Inr (fdirctrl, flex) \<Rightarrow>
         (case rd32 (hw dev) (TXGBE_PBRXSIZE 0) of (pbsize0, hw1) \<Rightarrow>
            let pbsize = pbsize0 - TXGBD_FDIRCTL_BUF_BYTE H fdirctrl;
                hw2 = wr32 hw1 (TXGBE_PBRXSIZE 0) pbsize;
                hw3 = pbrxsize_clear_loop 1 hw2;
                dev1 = dev\<lparr>hw := hw3\<rparr>
            in case txgbe_fdir_store_input_mask dev1 of
                 (Inl err, dev2) \<Rightarrow> (Inl err, dev2)
               | (Inr u2, dev2) \<Rightarrow>
                  (case txgbe_fdir_set_input_mask H dev2 of
                     (Inl err, dev3) \<Rightarrow> (Inl err, dev3)
                   | (Inr u3, dev3) \<Rightarrow>
                      (case txgbe_set_fdir_flex_conf H dev3 flex of
                         (Inl err, dev4) \<Rightarrow> (Inl err, dev4)
                       | (Inr u4, dev4) \<Rightarrow>
                          (case txgbe_fdir_enable H (hw dev4) fdirctrl of
                             (Inl err, hw5) \<Rightarrow> (Inl err, dev4\<lparr>hw := hw5\<rparr>)
                           | (Inr u5, hw5) \<Rightarrow> (ok, dev4\<lparr>hw := hw5\<rparr>))))))"

declare ipv6_addr_to_mask_loop.simps [simp del]
declare ipv6_mask_to_addr_loop.simps [simp del]
declare fdir_init_done_poll.simps [simp del]
declare set_flexbytes_offset_loop.simps [simp del]
declare set_fdir_flex_conf_loop.simps [simp del]
declare pbrxsize_clear_loop.simps [simp del]

subsection \<open>Sample inputs\<close>

text \<open>
  A device whose init-done bit (bit 3 under \<open>txgbe_regs\<close>) reads as set from the
  \<open>n\<close>-th read of the control register on, and not before.
\<close>

definition hw_init_done_after :: "nat \<Rightarrow> txgbe_hw" where
  "hw_init_done_after n =
     \<lparr> regs = (\<lambda>r. 0), fdirctl_status = (\<lambda>k. if k < n then 0 else 0x8),
       fdirctl_reads = 0, msec_slept = 0 \<rparr>"

text \<open>
  A payload descriptor that asks for the two bytes at \<open>off\<close> and \<open>off + 1\<close>; the
  other fourteen entries of \<^verbatim>\<open>src_offset\<close> are not read.
\<close>

definition raw_payload :: "u16 \<Rightarrow> rte_eth_flex_payload_cfg" where
  "raw_payload off =
     \<lparr> payload_type = RTE_ETH_RAW_PAYLOAD, src_offset = [off, off + 1] @ replicate 14 0 \<rparr>"

text \<open>
  A device in perfect mode with no flexible-byte descriptors, and masks left by an
  earlier configuration in its \<open>fdir\<close> record.
\<close>

definition dev_sample :: rte_eth_dev where
  "dev_sample =
     \<lparr> fdir_conf =
         \<lparr> mode = RTE_FDIR_MODE_PERFECT, pballoc = RTE_FDIR_PBALLOC_64K,
           status = RTE_FDIR_REPORT_STATUS, drop_queue = 3,
           mask_conf =
             \<lparr> vlan_tci_mask_conf = 0xEFFF,
               ipv4_mask_src_ip = 0xFFFFFFFF, ipv4_mask_dst_ip = 0xFFFFFFFF,
               ipv6_mask_src_ip = replicate 16 0xFF, ipv6_mask_dst_ip = replicate 16 0xFF,
               src_port_mask_conf = 0, dst_port_mask_conf = 0xFFFF \<rparr>,
           flex_conf = \<lparr> flex_set = [], flex_mask = [] \<rparr> \<rparr>,
       hw = hw_init_done_after 2,
       fdir =
         \<lparr> mask_info =
             \<lparr> vlan_tci_mask = 0, src_ipv4_mask = 0, dst_ipv4_mask = 0, src_ipv6_mask = 0xFFFF,
               dst_ipv6_mask = 0xFFFF, src_port_mask = 0, dst_port_mask = 0xFFFF,
               flex_bytes_mask = 0xFFFF \<rparr>,
           flex_bytes_offset = 12 \<rparr> \<rparr>"

text \<open>The same device with another part of its configuration or hardware.\<close>

definition set_ipv6_mask_src_ip :: "rte_eth_dev \<Rightarrow> u8 list \<Rightarrow> rte_eth_dev" where
  "set_ipv6_mask_src_ip dev a =
     dev\<lparr>fdir_conf := (fdir_conf dev)\<lparr>mask_conf := (mask_conf (fdir_conf dev))\<lparr>ipv6_mask_src_ip := a\<rparr>\<rparr>\<rparr>"

definition set_flex_set :: "rte_eth_dev \<Rightarrow> rte_eth_flex_payload_cfg list \<Rightarrow> rte_eth_dev" where
  "set_flex_set dev ds =
     dev\<lparr>fdir_conf := (fdir_conf dev)\<lparr>flex_conf := (flex_conf (fdir_conf dev))\<lparr>flex_set := ds\<rparr>\<rparr>\<rparr>"

definition set_hw :: "rte_eth_dev \<Rightarrow> txgbe_hw \<Rightarrow> rte_eth_dev" where
  "set_hw dev h = dev\<lparr>hw := h\<rparr>"

section \<open>Properties\<close>

subsection \<open>The mask codec\<close>

lemma addr_to_mask_loop_Inl:
  "ipv6_addr_to_mask_loop a i m = Inl e \<longleftrightarrow>
     e = EINVAL \<and> (\<exists>j. i \<le> j \<and> j < 16 \<and> a ! j \<noteq> 0xFF \<and> a ! j \<noteq> 0)"
proof (induction a i m rule: ipv6_addr_to_mask_loop.induct)
  case (1 a i m)
  show ?case
  proof (cases "i < 16")
    case False
    then show ?thesis by (subst ipv6_addr_to_mask_loop.simps) auto
  next
    case True
    have split: "(\<exists>j. i \<le> j \<and> j < 16 \<and> a ! j \<noteq> 0xFF \<and> a ! j \<noteq> 0) \<longleftrightarrow>
        (a ! i \<noteq> 0xFF \<and> a ! i \<noteq> 0) \<or> (\<exists>j. i + 1 \<le> j \<and> j < 16 \<and> a ! j \<noteq> 0xFF \<and> a ! j \<noteq> 0)"
      using True by (metis Suc_eq_plus1 Suc_leI le_neq_implies_less order_refl Suc_leD)
    show ?thesis
      using True "1.IH" 
      by (subst ipv6_addr_to_mask_loop.simps) (auto simp add: split)
  qed
qed

lemma addr_to_mask_loop_bit:
  "ipv6_addr_to_mask_loop a i m = Inr m' \<Longrightarrow>
     bit m' n \<longleftrightarrow> bit m n \<or> (i \<le> n \<and> n < 16 \<and> a ! n = 0xFF)"
proof (induction a i m rule: ipv6_addr_to_mask_loop.induct)
  case (1 a i m)
  show ?case
  proof (cases "i < 16")
    case False
    with "1.prems" show ?thesis by (subst (asm) ipv6_addr_to_mask_loop.simps) auto
  next
    case True
    have rng: "(i \<le> n \<and> n < 16 \<and> a ! n = 0xFF) \<longleftrightarrow>
               (n = i \<and> a ! i = 0xFF) \<or> (i + 1 \<le> n \<and> n < 16 \<and> a ! n = 0xFF)"
      using True by (cases "n = i") auto
    show ?thesis
    proof (cases "a ! i = 0xFF")
      case T2: True
      with True "1.prems" have "ipv6_addr_to_mask_loop a (i + 1) (m OR push_bit i 1) = Inr m'"
        by (subst (asm) ipv6_addr_to_mask_loop.simps) simp
      from "1.IH"(1)[OF True T2 this] show ?thesis
        using True T2 by (auto simp add: bit_simps)
    next
      case F2: False
      with True "1.prems" have z: "a ! i = 0" and "ipv6_addr_to_mask_loop a (i + 1) m = Inr m'"
        by (subst (asm) ipv6_addr_to_mask_loop.simps; simp split: if_splits)+
      from "1.IH"(2)[OF True F2 _ this(2)] z show ?thesis
        using True F2 by (cases "n = i") (auto simp add: bit_simps)
    qed
  qed
qed

lemma mask_to_addr_loop_length:
  "length (ipv6_mask_to_addr_loop m i buf) = length buf"
  by (induction m i buf rule: ipv6_mask_to_addr_loop.induct)
     (subst ipv6_mask_to_addr_loop.simps, simp)

lemma mask_to_addr_loop_nth:
  "n < length buf \<Longrightarrow>
   ipv6_mask_to_addr_loop m i buf ! n =
     (if i \<le> n \<and> n < 16 then (if bit m n then 0xFF else 0) else buf ! n)"
proof (induction m i buf rule: ipv6_mask_to_addr_loop.induct)
  case (1 m i buf)
  show ?case
  proof (cases "i < 16")
    case False
    then show ?thesis by (subst ipv6_mask_to_addr_loop.simps) auto
  next
    case True
    have b: "m AND push_bit i 1 \<noteq> 0 \<longleftrightarrow> bit m i"
      by (simp add: bit_iff_and_push_bit_not_eq_0)
    show ?thesis
      using True "1.IH"[OF True] "1.prems"
      by (subst ipv6_mask_to_addr_loop.simps, cases "n = i")
         (auto simp add: b nth_list_update simp del: push_bit_of_1)
  qed
qed

text \<open>
  C3 (as amended). The encoder rejects a 16-byte address mask exactly when one of its
  bytes is neither 0x00 nor 0xFF. It does not look at the order of the bytes: a mask of
  0x00 and 0xFF bytes is accepted also when a 0xFF byte follows a 0x00 byte, and bit
  \<open>n\<close> of the result is set exactly when byte \<open>n\<close> is 0xFF.
\<close>

theorem IPV6_ADDR_TO_MASK_rejects_iff:
  assumes "length a = 16"
  shows "(IPV6_ADDR_TO_MASK a = Inl EINVAL \<longleftrightarrow> \<not> list_all (\<lambda>b. b = 0x00 \<or> b = 0xFF) a)
       \<and> (\<forall>m. IPV6_ADDR_TO_MASK a = Inr m \<longrightarrow> (\<forall>n. bit m n \<longleftrightarrow> n < 16 \<and> a ! n = 0xFF))"
proof -
  have "IPV6_ADDR_TO_MASK a = Inl EINVAL \<longleftrightarrow> (\<exists>j < 16. a ! j \<noteq> 0xFF \<and> a ! j \<noteq> 0)"
    by (simp add: IPV6_ADDR_TO_MASK_def addr_to_mask_loop_Inl)
  also have "\<dots> \<longleftrightarrow> \<not> list_all (\<lambda>b. b = 0x00 \<or> b = 0xFF) a"
    using assms by (auto simp add: list_all_length)
  finally have rej: "IPV6_ADDR_TO_MASK a = Inl EINVAL \<longleftrightarrow> \<not> list_all (\<lambda>b. b = 0x00 \<or> b = 0xFF) a" .
  have "bit m n \<longleftrightarrow> n < 16 \<and> a ! n = 0xFF" if "IPV6_ADDR_TO_MASK a = Inr m" for m n
    using addr_to_mask_loop_bit[OF that[unfolded IPV6_ADDR_TO_MASK_def], of n] by simp
  with rej show ?thesis by blast
qed

theorem IPV6_ADDR_TO_MASK_rejects_iff_witness:
  "IPV6_ADDR_TO_MASK [0xFF, 0xFF, 0x0F, 0, 0, 0, 0, 0, 0, 0, 0, 0, 0, 0, 0, 0] = Inl EINVAL"
  using IPV6_ADDR_TO_MASK_rejects_iff
          [of "[0xFF, 0xFF, 0x0F, 0, 0, 0, 0, 0, 0, 0, 0, 0, 0, 0, 0, 0]"]
  by simp

text \<open>
  C3 as stated fails: in this mask a nonzero byte follows a zero byte, and the encoder
  returns the compact mask 2 for it.
\<close>

theorem IPV6_ADDR_TO_MASK_accepts_gap:
  "IPV6_ADDR_TO_MASK [0x00, 0xFF, 0, 0, 0, 0, 0, 0, 0, 0, 0, 0, 0, 0, 0, 0] = Inr 2"
  by code_simp

text \<open>
  C6. A 16-byte address mask whose bytes are each 0x00 or 0xFF is encoded, and decoding
  the compact mask gives the sixteen bytes back.
\<close>

theorem ipv6_mask_round_trip:
  assumes "length a = 16" and "list_all (\<lambda>b. b = 0x00 \<or> b = 0xFF) a"
  shows "\<exists>m. IPV6_ADDR_TO_MASK a = Inr m \<and> IPV6_MASK_TO_ADDR m = a"
proof -
  have ok: "\<And>j. j < 16 \<Longrightarrow> a ! j = 0 \<or> a ! j = 0xFF"
    using assms by (simp add: list_all_length)
  have "\<not> (\<exists>e. IPV6_ADDR_TO_MASK a = Inl e)"
    unfolding IPV6_ADDR_TO_MASK_def addr_to_mask_loop_Inl using ok by auto
  then obtain m where m: "IPV6_ADDR_TO_MASK a = Inr m"
    by (cases "IPV6_ADDR_TO_MASK a") auto
  have bits: "\<And>n. bit m n \<longleftrightarrow> n < 16 \<and> a ! n = 0xFF"
    using addr_to_mask_loop_bit[OF m[unfolded IPV6_ADDR_TO_MASK_def]] by simp
  have "IPV6_MASK_TO_ADDR m = a"
  proof (rule nth_equalityI)
    show "length (IPV6_MASK_TO_ADDR m) = length a"
      by (simp add: IPV6_MASK_TO_ADDR_def mask_to_addr_loop_length assms)
  next
    fix n assume "n < length (IPV6_MASK_TO_ADDR m)"
    then have n: "n < 16" by (simp add: IPV6_MASK_TO_ADDR_def mask_to_addr_loop_length)
    then show "IPV6_MASK_TO_ADDR m ! n = a ! n"
      using ok[OF n] by (auto simp add: IPV6_MASK_TO_ADDR_def mask_to_addr_loop_nth bits)
  qed
  with m show ?thesis by blast
qed

theorem ipv6_mask_round_trip_witness:
  "\<exists>m. IPV6_ADDR_TO_MASK [0xFF, 0xFF, 0xFF, 0, 0, 0, 0, 0, 0xFF, 0, 0, 0, 0, 0, 0, 0] = Inr m
      \<and> IPV6_MASK_TO_ADDR m = [0xFF, 0xFF, 0xFF, 0, 0, 0, 0, 0, 0xFF, 0, 0, 0, 0, 0, 0, 0]"
  using ipv6_mask_round_trip
          [of "[0xFF, 0xFF, 0xFF, 0, 0, 0, 0, 0, 0xFF, 0, 0, 0, 0, 0, 0, 0]"]
  by simp

subsection \<open>Bit reversal\<close>

lemma nat_lt_32_cases:
  "n < 32 \<Longrightarrow> n \<in> {0,1,2,3,4,5,6,7,8,9,10,11,12,13,14,15,16,17,18,19,20,21,22,23,
                     24,25,26,27,28,29,30,31::nat}"
  by (simp add: numeral_eq_Suc less_Suc_eq)

lemma half_rev_lt: "n < 32 \<Longrightarrow> 16 * (n div 16) + (15 - n mod 16) < (32::nat)"
  by (drule nat_lt_32_cases) auto

lemma half_rev_invol:
  "n < 32 \<Longrightarrow>
   16 * ((16 * (n div 16) + (15 - n mod 16)) div 16)
     + (15 - (16 * (n div 16) + (15 - n mod 16)) mod 16) = (n::nat)"
  by (drule nat_lt_32_cases) auto

lemma swap_stage_bit:
  "bit (push_bit k (w AND m) OR drop_bit k (w AND m') :: u32) n \<longleftrightarrow>
     n < 32 \<and> ((k \<le> n \<and> bit w (n - k) \<and> bit m (n - k)) \<or> (bit w (n + k) \<and> bit m' (n + k)))"
  by (auto simp add: bit_simps add.commute dest: bit_imp_le_length)

lemma fdir_bmks_swaps_bit:
  "bit (fdir_bmks_swaps w) n \<longleftrightarrow> n < 32 \<and> bit w (16 * (n div 16) + (15 - n mod 16))"
proof (cases "n < 32")
  case False
  then show ?thesis by (auto dest: bit_imp_le_length)
next
  case True
  from nat_lt_32_cases[OF this] show ?thesis
    unfolding fdir_bmks_swaps_def Let_def
    apply (elim insertE emptyE)
    apply (simp_all only: swap_stage_bit)
    apply simp_all
    apply (simp_all add: numeral_2_eq_2 numeral_3_eq_3)
    done
qed

lemma fdir_bmks_swaps_invol: "fdir_bmks_swaps (fdir_bmks_swaps w) = w"
proof (rule bit_word_eqI)
  fix n assume "n < LENGTH(32)"
  then have n: "n < 32" by simp
  show "bit (fdir_bmks_swaps (fdir_bmks_swaps w)) n = bit w n"
    using n half_rev_lt[OF n] half_rev_invol[OF n] by (simp only: fdir_bmks_swaps_bit) simp
qed

text \<open>
  C7 (as amended). The swap stages of \<^verbatim>\<open>reverse_fdir_bmks\<close> are an involution on 32-bit
  values: applied twice they return the original value. They reverse the bits of each
  16-bit half in place (bit 0 maps to bit 15 and back, bit 16 to bit 31 and back), and
  applying \<^verbatim>\<open>reverse_fdir_bmks\<close> to the two halves of its own result gives back the
  concatenation of its arguments.
\<close>

theorem reverse_fdir_bmks_involution:
  "fdir_bmks_swaps (fdir_bmks_swaps w) = w
   \<and> (bit (fdir_bmks_swaps w) n \<longleftrightarrow> n < 32 \<and> bit w (16 * (n div 16) + (15 - n mod 16)))
   \<and> reverse_fdir_bmks (ucast (drop_bit 16 (reverse_fdir_bmks hi lo))) (ucast (reverse_fdir_bmks hi lo))
       = push_bit 16 (ucast hi) OR ucast lo"
proof -
  have join: "push_bit 16 (ucast (ucast (drop_bit 16 r :: u32) :: u16)) OR ucast (ucast r :: u16) = r"
    for r :: u32
    by (rule bit_word_eqI) (auto simp add: bit_simps)
  show ?thesis
    by (simp add: reverse_fdir_bmks_def join fdir_bmks_swaps_invol fdir_bmks_swaps_bit)
qed

text \<open>
  C7 as stated fails: the value with only bit 0 set is mapped to the value with only
  bit 15 set, so bit 0 does not map to bit 31.
\<close>

theorem reverse_fdir_bmks_bit0_not_bit31:
  "reverse_fdir_bmks 0 1 = 0x8000 \<and> \<not> bit (reverse_fdir_bmks 0 1) 31"
  by (simp add: reverse_fdir_bmks_def fdir_bmks_swaps_def)

subsection \<open>The enable step\<close>

lemma rd32_FDIRCTL:
  "rd32 hw0 TXGBE_FDIRCTL = (fdirctl_status hw0 (fdirctl_reads hw0), hw0\<lparr>fdirctl_reads := fdirctl_reads hw0 + 1\<rparr>)"
  by (simp add: rd32_def)

lemma rd32_other: "r \<noteq> TXGBE_FDIRCTL \<Longrightarrow> rd32 hw0 r = (regs hw0 r, hw0)"
  by (simp add: rd32_def)

lemma fdir_init_done_poll_spec:
  "fdir_init_done_poll H i hw0 = (i', hw') \<Longrightarrow> i \<le> TXGBE_FDIR_INIT_DONE_POLL H \<Longrightarrow>
     regs hw' = regs hw0 \<and> fdirctl_status hw' = fdirctl_status hw0
     \<and> i \<le> i' \<and> i' \<le> TXGBE_FDIR_INIT_DONE_POLL H
     \<and> msec_slept hw' = msec_slept hw0 + (i' - i)
     \<and> (\<forall>j < i' - i. fdirctl_status hw0 (fdirctl_reads hw0 + j) AND TXGBE_FDIRCTL_INITDONE H = 0)
     \<and> (if i' < TXGBE_FDIR_INIT_DONE_POLL H
         then fdirctl_status hw0 (fdirctl_reads hw0 + (i' - i)) AND TXGBE_FDIRCTL_INITDONE H \<noteq> 0
              \<and> fdirctl_reads hw' = fdirctl_reads hw0 + (i' - i) + 1
         else fdirctl_reads hw' = fdirctl_reads hw0 + (i' - i))"
proof (induction H i hw0 arbitrary: i' hw' rule: fdir_init_done_poll.induct)
  case (1 H i hw0)
  show ?case
  proof (cases "i < TXGBE_FDIR_INIT_DONE_POLL H")
    case False
    with "1.prems" show ?thesis
      by (subst (asm) fdir_init_done_poll.simps) auto
  next
    case True
    let ?v = "fdirctl_status hw0 (fdirctl_reads hw0)"
    let ?hw1 = "hw0\<lparr>fdirctl_reads := fdirctl_reads hw0 + 1\<rparr>"
    show ?thesis
    proof (cases "?v AND TXGBE_FDIRCTL_INITDONE H \<noteq> 0")
      case seen: True
      with True "1.prems"(1) have "i' = i" "hw' = ?hw1"
        by (subst (asm) fdir_init_done_poll.simps; simp add: rd32_FDIRCTL)+
      with True seen show ?thesis by simp
    next
      case unseen: False
      with True "1.prems"(1) have rec: "fdir_init_done_poll H (i + 1) (msec_delay ?hw1 1) = (i', hw')"
        by (subst (asm) fdir_init_done_poll.simps) (simp add: rd32_FDIRCTL)
      have le: "i + 1 \<le> TXGBE_FDIR_INIT_DONE_POLL H" using True by simp
      from unseen have z: "?v AND TXGBE_FDIRCTL_INITDONE H = 0" by simp
      note IH = "1.IH"[OF True rd32_FDIRCTL[symmetric] unseen rec le]
      have ge: "i + 1 \<le> i'" using IH by simp
      then have d: "i' - i = Suc (i' - (i + 1))" by simp
      have all: "\<forall>j < i' - i. fdirctl_status hw0 (fdirctl_reads hw0 + j) AND TXGBE_FDIRCTL_INITDONE H = 0"
      proof (intro allI impI)
        fix j assume j: "j < i' - i"
        show "fdirctl_status hw0 (fdirctl_reads hw0 + j) AND TXGBE_FDIRCTL_INITDONE H = 0"
        proof (cases j)
          case 0
          then show ?thesis using z by simp
        next
          case (Suc j')
          with j d have "j' < i' - (i + 1)" by simp
          with IH have "fdirctl_status hw0 (fdirctl_reads hw0 + 1 + j') AND TXGBE_FDIRCTL_INITDONE H = 0"
            by (simp add: msec_delay_def)
          then show ?thesis using Suc by (simp add: add.assoc)
        qed
      qed
      have shift: "fdirctl_reads hw0 + 1 + (i' - (i + 1)) = fdirctl_reads hw0 + (i' - i)"
        using ge by simp
      show ?thesis
        using IH all ge shift unfolding msec_delay_def
        by (auto simp add: msec_delay_def split: if_splits)
    qed
  qed
qed


lemma txgbe_fdir_enable_poll:
  "txgbe_fdir_enable H hw0 c =
     (case fdir_init_done_poll H 0
             (hw0\<lparr>regs := (regs hw0)
                (TXGBE_FDIRBKTHKEY := TXGBE_ATR_BUCKET_HASH_KEY H,
                 TXGBE_FDIRSIGHKEY := TXGBE_ATR_SIGNATURE_HASH_KEY H,
                 TXGBE_FDIRCTL := c OR TXGBE_FDIRCTL_MAXLEN H 0xA OR TXGBE_FDIRCTL_FULLTHR H 4)\<rparr>) of
        (i, hw5) \<Rightarrow> if i \<ge> TXGBE_FDIR_INIT_DONE_POLL H then (Inl ETIMEDOUT, hw5) else (ok, hw5))"
  by (simp add: txgbe_fdir_enable_def wr32_def txgbe_flush_def Let_def)

text \<open>
  C5. \<^verbatim>\<open>txgbe_fdir_enable\<close> returns \<^verbatim>\<open>-ETIMEDOUT\<close> exactly when none of the
  \<^verbatim>\<open>TXGBE_FDIR_INIT_DONE_POLL\<close> reads of the control register shows the init-done bit.
  When read \<open>k\<close> (counted from 0, below the bound) is the first to show it, the call
  returns 0 having made \<open>k + 1\<close> reads and slept \<open>k\<close> milliseconds: no read follows.
\<close>

theorem txgbe_fdir_enable_timeout_iff:
  "(fst (txgbe_fdir_enable H hw0 c) = Inl ETIMEDOUT \<longleftrightarrow>
      (\<forall>j < TXGBE_FDIR_INIT_DONE_POLL H.
          fdirctl_status hw0 (fdirctl_reads hw0 + j) AND TXGBE_FDIRCTL_INITDONE H = 0))
   \<and> (\<forall>k < TXGBE_FDIR_INIT_DONE_POLL H.
          fdirctl_status hw0 (fdirctl_reads hw0 + k) AND TXGBE_FDIRCTL_INITDONE H \<noteq> 0
          \<and> (\<forall>j < k. fdirctl_status hw0 (fdirctl_reads hw0 + j) AND TXGBE_FDIRCTL_INITDONE H = 0)
          \<longrightarrow> fst (txgbe_fdir_enable H hw0 c) = ok
              \<and> fdirctl_reads (snd (txgbe_fdir_enable H hw0 c)) = fdirctl_reads hw0 + k + 1
              \<and> msec_slept (snd (txgbe_fdir_enable H hw0 c)) = msec_slept hw0 + k)"
proof -
  let ?N = "TXGBE_FDIR_INIT_DONE_POLL H"
  let ?clear = "\<lambda>j. fdirctl_status hw0 (fdirctl_reads hw0 + j) AND TXGBE_FDIRCTL_INITDONE H = 0"
  let ?hw4 = "hw0\<lparr>regs := (regs hw0)
                (TXGBE_FDIRBKTHKEY := TXGBE_ATR_BUCKET_HASH_KEY H,
                 TXGBE_FDIRSIGHKEY := TXGBE_ATR_SIGNATURE_HASH_KEY H,
                 TXGBE_FDIRCTL := c OR TXGBE_FDIRCTL_MAXLEN H 0xA OR TXGBE_FDIRCTL_FULLTHR H 4)\<rparr>"
  obtain i' hw' where p: "fdir_init_done_poll H 0 ?hw4 = (i', hw')"
    by (cases "fdir_init_done_poll H 0 ?hw4") auto
  have res: "txgbe_fdir_enable H hw0 c = (if i' \<ge> ?N then (Inl ETIMEDOUT, hw') else (ok, hw'))"
    by (simp add: txgbe_fdir_enable_poll p)
  from fdir_init_done_poll_spec[OF p] have
    le: "i' \<le> ?N" and
    slept: "msec_slept hw' = msec_slept hw0 + i'" and
    before: "\<forall>j < i'. ?clear j" and
    at: "i' < ?N \<Longrightarrow> \<not> ?clear i' \<and> fdirctl_reads hw' = fdirctl_reads hw0 + i' + 1"
    by simp_all
  have timeout: "fst (txgbe_fdir_enable H hw0 c) = Inl ETIMEDOUT \<longleftrightarrow> (\<forall>j < ?N. ?clear j)"
  proof (cases "i' < ?N")
    case True
    with at have "\<not> ?clear i'" by simp
    with True show ?thesis by (auto simp add: res)
  next
    case False
    with le have "i' = ?N" by simp
    with before show ?thesis by (simp add: res)
  qed
  have found: "fst (txgbe_fdir_enable H hw0 c) = ok
              \<and> fdirctl_reads (snd (txgbe_fdir_enable H hw0 c)) = fdirctl_reads hw0 + k + 1
              \<and> msec_slept (snd (txgbe_fdir_enable H hw0 c)) = msec_slept hw0 + k"
    if k: "k < ?N" and set: "\<not> ?clear k" and first: "\<forall>j < k. ?clear j" for k
  proof -
    have "\<not> k < i'" using before set by blast
    moreover have "\<not> i' < k"
    proof
      assume "i' < k"
      with k have "i' < ?N" by simp
      with at have "\<not> ?clear i'" by simp
      with first \<open>i' < k\<close> show False by blast
    qed
    ultimately have "i' = k" by simp
    with k at slept show ?thesis by (simp add: res)
  qed
  from timeout found show ?thesis by blast
qed

theorem txgbe_fdir_enable_timeout_iff_witness:
  "fst (txgbe_fdir_enable txgbe_regs (hw_init_done_after 2) 0) = ok
   \<and> fdirctl_reads (snd (txgbe_fdir_enable txgbe_regs (hw_init_done_after 2) 0)) = 3
   \<and> msec_slept (snd (txgbe_fdir_enable txgbe_regs (hw_init_done_after 2) 0)) = 2"
  using txgbe_fdir_enable_timeout_iff
          [of txgbe_regs "hw_init_done_after 2" 0, THEN conjunct2, rule_format, of 2]
  by (simp add: txgbe_regs_def hw_init_done_after_def)

subsection \<open>Programming the input masks\<close>

lemma rte_be_to_cpu_16_ones: "rte_be_to_cpu_16 H 0xFFFF = 0xFFFF"
  by (simp add: rte_be_to_cpu_16_def)

lemma rte_be_to_cpu_16_zero: "rte_be_to_cpu_16 H 0 = 0"
  by (simp add: rte_be_to_cpu_16_def)

lemma reverse_fdir_bmks_ones_zero: "reverse_fdir_bmks 0xFFFF 0 = 0xFFFF0000"
  by (simp add: reverse_fdir_bmks_def fdir_bmks_swaps_def)

lemma txgbe_fdir_set_input_mask_regs:
  assumes "mode (fdir_conf dev) = RTE_FDIR_MODE_SIGNATURE \<or> mode (fdir_conf dev) = RTE_FDIR_MODE_PERFECT"
  shows "fst (txgbe_fdir_set_input_mask H dev) = ok"
    and "regs (hw (snd (txgbe_fdir_set_input_mask H dev))) TXGBE_FDIRMSK =
           (if dst_port_mask (mask_info (fdir dev)) = 0 \<and> src_port_mask (mask_info (fdir dev)) = 0
            then TXGBE_FDIRMSK_POOL H OR TXGBE_FDIRMSK_L4P H else TXGBE_FDIRMSK_POOL H)"
    and "regs (hw (snd (txgbe_fdir_set_input_mask H dev))) TXGBE_FDIRTCPMSK =
           NOT (reverse_fdir_bmks (rte_be_to_cpu_16 H (dst_port_mask (mask_info (fdir dev))))
                                  (rte_be_to_cpu_16 H (src_port_mask (mask_info (fdir dev)))))"
  using assms by (auto simp add: txgbe_fdir_set_input_mask_def wr32_def Let_def)

text \<open>
  C4. With the stored destination port mask 0xFFFF and source port mask 0x0000, the
  value that \<^verbatim>\<open>txgbe_fdir_set_input_mask\<close> writes to the TCP port-mask register, the
  complement of \<^verbatim>\<open>reverse_fdir_bmks\<close> of the two masks, is 0x0000FFFF, on a host of
  either byte order.
\<close>

theorem fdirtcpmsk_full_dst_port_mask:
  assumes "mode (fdir_conf dev) = RTE_FDIR_MODE_SIGNATURE \<or> mode (fdir_conf dev) = RTE_FDIR_MODE_PERFECT"
    and "dst_port_mask (mask_info (fdir dev)) = 0xFFFF"
    and "src_port_mask (mask_info (fdir dev)) = 0x0000"
  shows "regs (hw (snd (txgbe_fdir_set_input_mask H dev))) TXGBE_FDIRTCPMSK = 0x0000FFFF
       \<and> regs (hw (snd (txgbe_fdir_set_input_mask H dev))) TXGBE_FDIRTCPMSK
           = NOT (reverse_fdir_bmks 0xFFFF 0x0000)"
  using assms
  by (simp add: txgbe_fdir_set_input_mask_regs rte_be_to_cpu_16_ones rte_be_to_cpu_16_zero
        reverse_fdir_bmks_ones_zero)

theorem fdirtcpmsk_full_dst_port_mask_witness:
  "regs (hw (snd (txgbe_fdir_set_input_mask txgbe_regs dev_sample))) TXGBE_FDIRTCPMSK = 0x0000FFFF"
  using fdirtcpmsk_full_dst_port_mask[of dev_sample txgbe_regs] by (simp add: dev_sample_def)

text \<open>
  C8. Where the pool flag and the protocol-substitution flag \<^verbatim>\<open>TXGBE_FDIRMSK_L4P\<close> are
  different bits, the value that \<^verbatim>\<open>txgbe_fdir_set_input_mask\<close> writes to the field-mask
  register includes \<^verbatim>\<open>TXGBE_FDIRMSK_L4P\<close> exactly when the stored destination and
  source port masks are both zero.
\<close>

theorem fdirmsk_l4p_iff_port_masks_zero:
  assumes "mode (fdir_conf dev) = RTE_FDIR_MODE_SIGNATURE \<or> mode (fdir_conf dev) = RTE_FDIR_MODE_PERFECT"
    and "TXGBE_FDIRMSK_L4P H \<noteq> 0"
    and "TXGBE_FDIRMSK_POOL H AND TXGBE_FDIRMSK_L4P H = 0"
  shows "regs (hw (snd (txgbe_fdir_set_input_mask H dev))) TXGBE_FDIRMSK AND TXGBE_FDIRMSK_L4P H
           = TXGBE_FDIRMSK_L4P H
         \<longleftrightarrow> dst_port_mask (mask_info (fdir dev)) = 0 \<and> src_port_mask (mask_info (fdir dev)) = 0"
proof -
  have "(TXGBE_FDIRMSK_POOL H OR TXGBE_FDIRMSK_L4P H) AND TXGBE_FDIRMSK_L4P H = TXGBE_FDIRMSK_L4P H"
    by (simp add: bit.conj_disj_distrib2 assms(3))
  moreover have "TXGBE_FDIRMSK_POOL H AND TXGBE_FDIRMSK_L4P H \<noteq> TXGBE_FDIRMSK_L4P H"
    using assms(2,3) by simp
  ultimately show ?thesis
    using assms(1) by (simp add: txgbe_fdir_set_input_mask_regs)
qed

theorem fdirmsk_l4p_iff_port_masks_zero_witness:
  "regs (hw (snd (txgbe_fdir_set_input_mask txgbe_regs dev_sample))) TXGBE_FDIRMSK AND 0x8 \<noteq> 0x8"
  using fdirmsk_l4p_iff_port_masks_zero[of dev_sample txgbe_regs]
  by (simp add: dev_sample_def txgbe_regs_def)

lemma IPV6_ADDR_TO_MASK_error: "IPV6_ADDR_TO_MASK a = Inl e \<Longrightarrow> e = EINVAL"
  by (simp add: IPV6_ADDR_TO_MASK_def addr_to_mask_loop_Inl)

lemma flex_payload_loop_error: "flex_payload_loop H ds f = Inl e \<Longrightarrow> e = EINVAL"
  by (induction ds arbitrary: f) (auto split: if_splits)

lemma flex_mask_loop_error: "flex_mask_loop H ms f b = Inl e \<Longrightarrow> e = EINVAL"
  by (induction ms arbitrary: f b) (auto simp add: Let_def split: if_splits)

lemma IPV6_ADDR_TO_MASK_bad:
  "IPV6_ADDR_TO_MASK [0xFF, 0xFF, 0x0F, 0, 0, 0, 0, 0, 0, 0, 0, 0, 0, 0, 0, 0] = Inl EINVAL"
  by code_simp

lemma txgbe_fdir_set_input_mask_supported:
  assumes "mode (fdir_conf dev) = RTE_FDIR_MODE_SIGNATURE \<or> mode (fdir_conf dev) = RTE_FDIR_MODE_PERFECT"
  shows "fst (txgbe_fdir_set_input_mask H dev) = ok
       \<and> fdir (snd (txgbe_fdir_set_input_mask H dev)) = fdir dev
       \<and> fdir_conf (snd (txgbe_fdir_set_input_mask H dev)) = fdir_conf dev"
  using assms by (auto simp add: txgbe_fdir_set_input_mask_def Let_def)

lemma txgbe_set_fdir_flex_conf_fails:
  "fst (txgbe_set_fdir_flex_conf H dev flex) = Inl e \<Longrightarrow>
     e = EINVAL \<and> snd (txgbe_set_fdir_flex_conf H dev flex) = dev"
  by (auto simp add: txgbe_set_fdir_flex_conf_def Let_def split: sum.splits prod.splits
           dest: flex_payload_loop_error flex_mask_loop_error)

lemma txgbe_set_fdir_flex_conf_fdir_cong:
  "fdir_conf a = fdir_conf b \<Longrightarrow> fdir a = fdir b \<Longrightarrow>
     fst (txgbe_set_fdir_flex_conf H a flex) = fst (txgbe_set_fdir_flex_conf H b flex)
     \<and> fdir (snd (txgbe_set_fdir_flex_conf H a flex)) = fdir (snd (txgbe_set_fdir_flex_conf H b flex))"
  by (simp add: txgbe_set_fdir_flex_conf_def Let_def split: sum.splits prod.splits)

lemma txgbe_fdir_enable_status:
  "fst (txgbe_fdir_enable H h c) = ok \<or> fst (txgbe_fdir_enable H h c) = Inl ETIMEDOUT"
  by (simp add: txgbe_fdir_enable_def Let_def split: prod.splits)

lemma txgbe_fdir_configure_stages:
  assumes md: "mode (fdir_conf dev) = RTE_FDIR_MODE_SIGNATURE \<or> mode (fdir_conf dev) = RTE_FDIR_MODE_PERFECT"
    and fl: "configure_fdir_flags H (fdir_conf dev) = Inr (fdirctrl, flex0)"
  shows "\<exists>dev1. fdir_conf dev1 = fdir_conf dev \<and> fdir dev1 = fdir dev \<and>
      txgbe_fdir_configure H dev =
        (case txgbe_fdir_store_input_mask dev1 of
           (Inl err, dev2) \<Rightarrow> (Inl err, dev2)
         | (Inr u2, dev2) \<Rightarrow>
            (case txgbe_fdir_set_input_mask H dev2 of
               (Inl err, dev3) \<Rightarrow> (Inl err, dev3)
             | (Inr u3, dev3) \<Rightarrow>
                (case txgbe_set_fdir_flex_conf H dev3 flex0 of
                   (Inl err, dev4) \<Rightarrow> (Inl err, dev4)
                 | (Inr u4, dev4) \<Rightarrow>
                    (case txgbe_fdir_enable H (hw dev4) fdirctrl of
                       (Inl err, hw5) \<Rightarrow> (Inl err, dev4\<lparr>hw := hw5\<rparr>)
                     | (Inr u5, hw5) \<Rightarrow> (ok, dev4\<lparr>hw := hw5\<rparr>)))))"
proof -
  let ?dev1 = "dev\<lparr>hw := pbrxsize_clear_loop 1
                  (wr32 (hw dev) (TXGBE_PBRXSIZE 0)
                     (regs (hw dev) (TXGBE_PBRXSIZE 0) - TXGBD_FDIRCTL_BUF_BYTE H fdirctrl))\<rparr>"
  have "fdir_conf ?dev1 = fdir_conf dev" "fdir ?dev1 = fdir dev" by simp_all
  moreover have "txgbe_fdir_configure H dev =
        (case txgbe_fdir_store_input_mask ?dev1 of
           (Inl err, dev2) \<Rightarrow> (Inl err, dev2)
         | (Inr u2, dev2) \<Rightarrow>
            (case txgbe_fdir_set_input_mask H dev2 of
               (Inl err, dev3) \<Rightarrow> (Inl err, dev3)
             | (Inr u3, dev3) \<Rightarrow>
                (case txgbe_set_fdir_flex_conf H dev3 flex0 of
                   (Inl err, dev4) \<Rightarrow> (Inl err, dev4)
                 | (Inr u4, dev4) \<Rightarrow>
                    (case txgbe_fdir_enable H (hw dev4) fdirctrl of
                       (Inl err, hw5) \<Rightarrow> (Inl err, dev4\<lparr>hw := hw5\<rparr>)
                     | (Inr u5, hw5) \<Rightarrow> (ok, dev4\<lparr>hw := hw5\<rparr>)))))"
    using md by (auto simp add: txgbe_fdir_configure_def fl rd32_def Let_def)
  ultimately show ?thesis by blast
qed


lemma txgbe_fdir_configure_flags_fail:
  assumes "mode (fdir_conf dev) = RTE_FDIR_MODE_SIGNATURE \<or> mode (fdir_conf dev) = RTE_FDIR_MODE_PERFECT"
    and "configure_fdir_flags H (fdir_conf dev) = Inl e"
  shows "txgbe_fdir_configure H dev = (Inl e, dev)"
  using assms by (auto simp add: txgbe_fdir_configure_def Let_def)

lemma txgbe_fdir_configure_ipv6_fail:
  assumes md: "mode (fdir_conf dev) = RTE_FDIR_MODE_SIGNATURE \<or> mode (fdir_conf dev) = RTE_FDIR_MODE_PERFECT"
    and fl: "configure_fdir_flags H (fdir_conf dev) = Inr (fdirctrl, flex0)"
    and bad: "IPV6_ADDR_TO_MASK (ipv6_mask_src_ip (mask_conf (fdir_conf dev))) = Inl EINVAL
              \<or> IPV6_ADDR_TO_MASK (ipv6_mask_dst_ip (mask_conf (fdir_conf dev))) = Inl EINVAL"
  shows "fst (txgbe_fdir_configure H dev) = Inl EINVAL
       \<and> fdir (snd (txgbe_fdir_configure H dev)) =
           (fdir dev)\<lparr>mask_info :=
             \<lparr> vlan_tci_mask = vlan_tci_mask_conf (mask_conf (fdir_conf dev)),
               src_ipv4_mask = ipv4_mask_src_ip (mask_conf (fdir_conf dev)),
               dst_ipv4_mask = ipv4_mask_dst_ip (mask_conf (fdir_conf dev)),
               src_ipv6_mask = 0, dst_ipv6_mask = 0,
               src_port_mask = src_port_mask_conf (mask_conf (fdir_conf dev)),
               dst_port_mask = dst_port_mask_conf (mask_conf (fdir_conf dev)),
               flex_bytes_mask = 0 \<rparr>\<rparr>"
proof -
  from txgbe_fdir_configure_stages[OF md fl] obtain dev1 where
    c: "fdir_conf dev1 = fdir_conf dev" and f: "fdir dev1 = fdir dev" and
    cfg: "txgbe_fdir_configure H dev =
        (case txgbe_fdir_store_input_mask dev1 of
           (Inl err, dev2) \<Rightarrow> (Inl err, dev2)
         | (Inr u2, dev2) \<Rightarrow>
            (case txgbe_fdir_set_input_mask H dev2 of
               (Inl err, dev3) \<Rightarrow> (Inl err, dev3)
             | (Inr u3, dev3) \<Rightarrow>
                (case txgbe_set_fdir_flex_conf H dev3 flex0 of
                   (Inl err, dev4) \<Rightarrow> (Inl err, dev4)
                 | (Inr u4, dev4) \<Rightarrow>
                    (case txgbe_fdir_enable H (hw dev4) fdirctrl of
                       (Inl err, hw5) \<Rightarrow> (Inl err, dev4\<lparr>hw := hw5\<rparr>)
                     | (Inr u5, hw5) \<Rightarrow> (ok, dev4\<lparr>hw := hw5\<rparr>)))))"
    by blast
  have st: "fst (txgbe_fdir_store_input_mask dev1) = Inl EINVAL"
    using md bad c
    by (auto simp add: txgbe_fdir_store_input_mask_def Let_def split: sum.splits
             dest: IPV6_ADDR_TO_MASK_error)
  then have "txgbe_fdir_configure H dev = (Inl EINVAL, snd (txgbe_fdir_store_input_mask dev1))"
    unfolding cfg by (cases "txgbe_fdir_store_input_mask dev1") simp
  moreover have "fdir (snd (txgbe_fdir_store_input_mask dev1)) =
           (fdir dev)\<lparr>mask_info :=
             \<lparr> vlan_tci_mask = vlan_tci_mask_conf (mask_conf (fdir_conf dev)),
               src_ipv4_mask = ipv4_mask_src_ip (mask_conf (fdir_conf dev)),
               dst_ipv4_mask = ipv4_mask_dst_ip (mask_conf (fdir_conf dev)),
               src_ipv6_mask = 0, dst_ipv6_mask = 0,
               src_port_mask = src_port_mask_conf (mask_conf (fdir_conf dev)),
               dst_port_mask = dst_port_mask_conf (mask_conf (fdir_conf dev)),
               flex_bytes_mask = 0 \<rparr>\<rparr>"
    using st c f
    by (auto simp add: txgbe_fdir_store_input_mask_def Let_def split: sum.splits if_splits)
  ultimately show ?thesis by simp
qed

lemma txgbe_fdir_configure_later_fail:
  assumes md: "mode (fdir_conf dev) = RTE_FDIR_MODE_SIGNATURE \<or> mode (fdir_conf dev) = RTE_FDIR_MODE_PERFECT"
    and fl: "configure_fdir_flags H (fdir_conf dev) = Inr (fdirctrl, flex0)"
    and src: "IPV6_ADDR_TO_MASK (ipv6_mask_src_ip (mask_conf (fdir_conf dev))) = Inr s"
    and dst: "IPV6_ADDR_TO_MASK (ipv6_mask_dst_ip (mask_conf (fdir_conf dev))) = Inr d"
    and fail: "fst (txgbe_fdir_configure H dev) = Inl e"
  shows "(e = EINVAL
          \<and> fdir (snd (txgbe_fdir_configure H dev)) =
             (fdir dev)\<lparr>mask_info :=
               \<lparr> vlan_tci_mask = vlan_tci_mask_conf (mask_conf (fdir_conf dev)),
                 src_ipv4_mask = ipv4_mask_src_ip (mask_conf (fdir_conf dev)),
                 dst_ipv4_mask = ipv4_mask_dst_ip (mask_conf (fdir_conf dev)),
                 src_ipv6_mask = s, dst_ipv6_mask = d,
                 src_port_mask = src_port_mask_conf (mask_conf (fdir_conf dev)),
                 dst_port_mask = dst_port_mask_conf (mask_conf (fdir_conf dev)),
                 flex_bytes_mask = 0 \<rparr>\<rparr>)
       \<or> (e = ETIMEDOUT
          \<and> fdir (snd (txgbe_fdir_configure H dev)) =
             fdir (snd (txgbe_set_fdir_flex_conf H
               (dev\<lparr>fdir := (fdir dev)\<lparr>mask_info :=
                 \<lparr> vlan_tci_mask = vlan_tci_mask_conf (mask_conf (fdir_conf dev)),
                   src_ipv4_mask = ipv4_mask_src_ip (mask_conf (fdir_conf dev)),
                   dst_ipv4_mask = ipv4_mask_dst_ip (mask_conf (fdir_conf dev)),
                   src_ipv6_mask = s, dst_ipv6_mask = d,
                   src_port_mask = src_port_mask_conf (mask_conf (fdir_conf dev)),
                   dst_port_mask = dst_port_mask_conf (mask_conf (fdir_conf dev)),
                   flex_bytes_mask = 0 \<rparr>\<rparr>\<rparr>) flex0)))"
proof -
  let ?info = "(fdir dev)\<lparr>mask_info :=
               \<lparr> vlan_tci_mask = vlan_tci_mask_conf (mask_conf (fdir_conf dev)),
                 src_ipv4_mask = ipv4_mask_src_ip (mask_conf (fdir_conf dev)),
                 dst_ipv4_mask = ipv4_mask_dst_ip (mask_conf (fdir_conf dev)),
                 src_ipv6_mask = s, dst_ipv6_mask = d,
                 src_port_mask = src_port_mask_conf (mask_conf (fdir_conf dev)),
                 dst_port_mask = dst_port_mask_conf (mask_conf (fdir_conf dev)),
                 flex_bytes_mask = 0 \<rparr>\<rparr>"
  from txgbe_fdir_configure_stages[OF md fl] obtain dev1 where
    c1: "fdir_conf dev1 = fdir_conf dev" and f1: "fdir dev1 = fdir dev" and
    cfg: "txgbe_fdir_configure H dev =
        (case txgbe_fdir_store_input_mask dev1 of
           (Inl err, dev2) \<Rightarrow> (Inl err, dev2)
         | (Inr u2, dev2) \<Rightarrow>
            (case txgbe_fdir_set_input_mask H dev2 of
               (Inl err, dev3) \<Rightarrow> (Inl err, dev3)
             | (Inr u3, dev3) \<Rightarrow>
                (case txgbe_set_fdir_flex_conf H dev3 flex0 of
                   (Inl err, dev4) \<Rightarrow> (Inl err, dev4)
                 | (Inr u4, dev4) \<Rightarrow>
                    (case txgbe_fdir_enable H (hw dev4) fdirctrl of
                       (Inl err, hw5) \<Rightarrow> (Inl err, dev4\<lparr>hw := hw5\<rparr>)
                     | (Inr u5, hw5) \<Rightarrow> (ok, dev4\<lparr>hw := hw5\<rparr>)))))"
    by blast
  define dev2 where "dev2 = dev1\<lparr>fdir := ?info\<rparr>"
  have st: "txgbe_fdir_store_input_mask dev1 = (ok, dev2)"
    using md src dst c1 f1 by (auto simp add: txgbe_fdir_store_input_mask_def Let_def dev2_def)
  have c2: "fdir_conf dev2 = fdir_conf dev" and f2: "fdir dev2 = ?info"
    by (simp_all add: dev2_def c1)
  define dev3 where "dev3 = snd (txgbe_fdir_set_input_mask H dev2)"
  from txgbe_fdir_set_input_mask_supported[of dev2 H] md c2 f2
  have im: "txgbe_fdir_set_input_mask H dev2 = (ok, dev3)"
    and c3: "fdir_conf dev3 = fdir_conf dev" and f3: "fdir dev3 = ?info"
    by (simp_all add: dev3_def prod_eq_iff)
  have cfg3: "txgbe_fdir_configure H dev =
                (case txgbe_set_fdir_flex_conf H dev3 flex0 of
                   (Inl err, dev4) \<Rightarrow> (Inl err, dev4)
                 | (Inr u4, dev4) \<Rightarrow>
                    (case txgbe_fdir_enable H (hw dev4) fdirctrl of
                       (Inl err, hw5) \<Rightarrow> (Inl err, dev4\<lparr>hw := hw5\<rparr>)
                     | (Inr u5, hw5) \<Rightarrow> (ok, dev4\<lparr>hw := hw5\<rparr>)))"
    by (simp add: cfg st im)
  obtain r4 dev4 where fx: "txgbe_set_fdir_flex_conf H dev3 flex0 = (r4, dev4)"
    by (cases "txgbe_set_fdir_flex_conf H dev3 flex0") auto
  show ?thesis
  proof (cases r4)
    case (Inl err)
    from txgbe_set_fdir_flex_conf_fails[of H dev3 flex0 err] fx Inl
    have "err = EINVAL" "dev4 = dev3" by simp_all
    with fail f3 show ?thesis by (simp add: cfg3 fx Inl)
  next
    case (Inr u)
    obtain r5 hw5 where en: "txgbe_fdir_enable H (hw dev4) fdirctrl = (r5, hw5)"
      by (cases "txgbe_fdir_enable H (hw dev4) fdirctrl") auto
    from txgbe_fdir_enable_status[of H "hw dev4" fdirctrl] en
    have r5: "r5 = ok \<or> r5 = Inl ETIMEDOUT" by simp
    have res: "txgbe_fdir_configure H dev = (r5, dev4\<lparr>hw := hw5\<rparr>)"
      using r5 by (auto simp add: cfg3 fx Inr en)
    with fail r5 have e: "e = ETIMEDOUT" by auto
    have "fdir dev4 = fdir (snd (txgbe_set_fdir_flex_conf H (dev\<lparr>fdir := ?info\<rparr>) flex0))"
      using txgbe_set_fdir_flex_conf_fdir_cong[of dev3 "dev\<lparr>fdir := ?info\<rparr>" H flex0] c3 f3 fx
      by simp
    with e res show ?thesis by simp
  qed
qed

text \<open>
  C2 (as amended). A failing call leaves the device, and with it the stored masks, as
  they were when it fails before \<^verbatim>\<open>txgbe_fdir_store_input_mask\<close> has written: a call of
  \<^verbatim>\<open>txgbe_fdir_store_input_mask\<close> that fails on the mode (\<^verbatim>\<open>-ENOTSUP\<close>), a failing call
  of \<^verbatim>\<open>txgbe_fdir_set_input_mask\<close>, a failing call of \<^verbatim>\<open>txgbe_set_fdir_flex_conf\<close>, and
  a call of \<^verbatim>\<open>txgbe_fdir_configure\<close> that fails on the mode (\<^verbatim>\<open>-ENOSYS\<close>) or in
  \<^verbatim>\<open>configure_fdir_flags\<close> (\<^verbatim>\<open>-EINVAL\<close>). A call of \<^verbatim>\<open>txgbe_fdir_store_input_mask\<close>
  that returns \<^verbatim>\<open>-EINVAL\<close> for a malformed IPv6 address mask has already overwritten
  \<^verbatim>\<open>info->mask\<close>: it holds the VLAN, port and IPv4 masks of the new configuration and
  zero in the two IPv6 masks and in the flexible-byte mask; nothing else of the device
  has changed. \<^verbatim>\<open>txgbe_fdir_configure\<close> failing on such a mask leaves the same record.
  When \<^verbatim>\<open>txgbe_fdir_configure\<close> fails after the masks were stored, the record is not
  the earlier one either: failing in \<^verbatim>\<open>txgbe_set_fdir_flex_conf\<close> (\<^verbatim>\<open>-EINVAL\<close>) it holds
  all the new masks, with the flexible-byte mask zero; failing in \<^verbatim>\<open>txgbe_fdir_enable\<close>
  (\<^verbatim>\<open>-ETIMEDOUT\<close>) it is what \<^verbatim>\<open>txgbe_set_fdir_flex_conf\<close> stored on top of these.
\<close>

theorem failed_call_mask_state:
  "(fst (txgbe_fdir_store_input_mask dev) = Inl ENOTSUP \<longrightarrow>
      snd (txgbe_fdir_store_input_mask dev) = dev)
   \<and> (fst (txgbe_fdir_store_input_mask dev) = Inl EINVAL \<longrightarrow>
      snd (txgbe_fdir_store_input_mask dev) =
        dev\<lparr>fdir := (fdir dev)\<lparr>mask_info :=
          \<lparr> vlan_tci_mask = vlan_tci_mask_conf (mask_conf (fdir_conf dev)),
            src_ipv4_mask = ipv4_mask_src_ip (mask_conf (fdir_conf dev)),
            dst_ipv4_mask = ipv4_mask_dst_ip (mask_conf (fdir_conf dev)),
            src_ipv6_mask = 0, dst_ipv6_mask = 0,
            src_port_mask = src_port_mask_conf (mask_conf (fdir_conf dev)),
            dst_port_mask = dst_port_mask_conf (mask_conf (fdir_conf dev)),
            flex_bytes_mask = 0 \<rparr>\<rparr>\<rparr>)
   \<and> (fst (txgbe_fdir_set_input_mask H dev) \<noteq> ok \<longrightarrow> snd (txgbe_fdir_set_input_mask H dev) = dev)
   \<and> (fst (txgbe_set_fdir_flex_conf H dev flex) \<noteq> ok \<longrightarrow>
        snd (txgbe_set_fdir_flex_conf H dev flex) = dev)
   \<and> (mode (fdir_conf dev) \<noteq> RTE_FDIR_MODE_SIGNATURE \<and> mode (fdir_conf dev) \<noteq> RTE_FDIR_MODE_PERFECT
        \<longrightarrow> txgbe_fdir_configure H dev = (Inl ENOSYS, dev))
   \<and> (\<forall>e. (mode (fdir_conf dev) = RTE_FDIR_MODE_SIGNATURE \<or> mode (fdir_conf dev) = RTE_FDIR_MODE_PERFECT)
          \<and> configure_fdir_flags H (fdir_conf dev) = Inl e
        \<longrightarrow> txgbe_fdir_configure H dev = (Inl e, dev))
   \<and> (\<forall>fdirctrl flex0. (mode (fdir_conf dev) = RTE_FDIR_MODE_SIGNATURE \<or> mode (fdir_conf dev) = RTE_FDIR_MODE_PERFECT)
          \<and> configure_fdir_flags H (fdir_conf dev) = Inr (fdirctrl, flex0)
          \<and> (IPV6_ADDR_TO_MASK (ipv6_mask_src_ip (mask_conf (fdir_conf dev))) = Inl EINVAL
               \<or> IPV6_ADDR_TO_MASK (ipv6_mask_dst_ip (mask_conf (fdir_conf dev))) = Inl EINVAL)
        \<longrightarrow> fst (txgbe_fdir_configure H dev) = Inl EINVAL
          \<and> fdir (snd (txgbe_fdir_configure H dev)) =
              (fdir dev)\<lparr>mask_info :=
          \<lparr> vlan_tci_mask = vlan_tci_mask_conf (mask_conf (fdir_conf dev)),
            src_ipv4_mask = ipv4_mask_src_ip (mask_conf (fdir_conf dev)),
            dst_ipv4_mask = ipv4_mask_dst_ip (mask_conf (fdir_conf dev)),
            src_ipv6_mask = 0, dst_ipv6_mask = 0,
            src_port_mask = src_port_mask_conf (mask_conf (fdir_conf dev)),
            dst_port_mask = dst_port_mask_conf (mask_conf (fdir_conf dev)),
            flex_bytes_mask = 0 \<rparr>\<rparr>)
   \<and> (\<forall>fdirctrl flex0 s d e. (mode (fdir_conf dev) = RTE_FDIR_MODE_SIGNATURE \<or> mode (fdir_conf dev) = RTE_FDIR_MODE_PERFECT)
          \<and> configure_fdir_flags H (fdir_conf dev) = Inr (fdirctrl, flex0)
          \<and> IPV6_ADDR_TO_MASK (ipv6_mask_src_ip (mask_conf (fdir_conf dev))) = Inr s
          \<and> IPV6_ADDR_TO_MASK (ipv6_mask_dst_ip (mask_conf (fdir_conf dev))) = Inr d
          \<and> fst (txgbe_fdir_configure H dev) = Inl e
        \<longrightarrow> (e = EINVAL
              \<and> fdir (snd (txgbe_fdir_configure H dev)) =
                  (fdir dev)\<lparr>mask_info :=
          \<lparr> vlan_tci_mask = vlan_tci_mask_conf (mask_conf (fdir_conf dev)),
            src_ipv4_mask = ipv4_mask_src_ip (mask_conf (fdir_conf dev)),
            dst_ipv4_mask = ipv4_mask_dst_ip (mask_conf (fdir_conf dev)),
            src_ipv6_mask = s, dst_ipv6_mask = d,
            src_port_mask = src_port_mask_conf (mask_conf (fdir_conf dev)),
            dst_port_mask = dst_port_mask_conf (mask_conf (fdir_conf dev)),
            flex_bytes_mask = 0 \<rparr>\<rparr>)
          \<or> (e = ETIMEDOUT
              \<and> fdir (snd (txgbe_fdir_configure H dev)) =
                  fdir (snd (txgbe_set_fdir_flex_conf H
                    (dev\<lparr>fdir := (fdir dev)\<lparr>mask_info :=
          \<lparr> vlan_tci_mask = vlan_tci_mask_conf (mask_conf (fdir_conf dev)),
            src_ipv4_mask = ipv4_mask_src_ip (mask_conf (fdir_conf dev)),
            dst_ipv4_mask = ipv4_mask_dst_ip (mask_conf (fdir_conf dev)),
            src_ipv6_mask = s, dst_ipv6_mask = d,
            src_port_mask = src_port_mask_conf (mask_conf (fdir_conf dev)),
            dst_port_mask = dst_port_mask_conf (mask_conf (fdir_conf dev)),
            flex_bytes_mask = 0 \<rparr>\<rparr>\<rparr>) flex0))))"
proof -
  have early: "(fst (txgbe_fdir_store_input_mask dev) = Inl ENOTSUP \<longrightarrow>
      snd (txgbe_fdir_store_input_mask dev) = dev)
   \<and> (fst (txgbe_fdir_store_input_mask dev) = Inl EINVAL \<longrightarrow>
      snd (txgbe_fdir_store_input_mask dev) =
        dev\<lparr>fdir := (fdir dev)\<lparr>mask_info :=
          \<lparr> vlan_tci_mask = vlan_tci_mask_conf (mask_conf (fdir_conf dev)),
            src_ipv4_mask = ipv4_mask_src_ip (mask_conf (fdir_conf dev)),
            dst_ipv4_mask = ipv4_mask_dst_ip (mask_conf (fdir_conf dev)),
            src_ipv6_mask = 0, dst_ipv6_mask = 0,
            src_port_mask = src_port_mask_conf (mask_conf (fdir_conf dev)),
            dst_port_mask = dst_port_mask_conf (mask_conf (fdir_conf dev)),
            flex_bytes_mask = 0 \<rparr>\<rparr>\<rparr>)
   \<and> (fst (txgbe_fdir_set_input_mask H dev) \<noteq> ok \<longrightarrow> snd (txgbe_fdir_set_input_mask H dev) = dev)
   \<and> (fst (txgbe_set_fdir_flex_conf H dev flex) \<noteq> ok \<longrightarrow>
        snd (txgbe_set_fdir_flex_conf H dev flex) = dev)
   \<and> (mode (fdir_conf dev) \<noteq> RTE_FDIR_MODE_SIGNATURE \<and> mode (fdir_conf dev) \<noteq> RTE_FDIR_MODE_PERFECT
        \<longrightarrow> txgbe_fdir_configure H dev = (Inl ENOSYS, dev))"
  proof (intro conjI impI)
    assume "fst (txgbe_fdir_store_input_mask dev) = Inl ENOTSUP"
    then show "snd (txgbe_fdir_store_input_mask dev) = dev"
      by (auto simp add: txgbe_fdir_store_input_mask_def Let_def
               split: sum.splits if_splits dest: IPV6_ADDR_TO_MASK_error)
  next
    assume "fst (txgbe_fdir_store_input_mask dev) = Inl EINVAL"
    then show "snd (txgbe_fdir_store_input_mask dev) =
          dev\<lparr>fdir := (fdir dev)\<lparr>mask_info :=
            \<lparr> vlan_tci_mask = vlan_tci_mask_conf (mask_conf (fdir_conf dev)),
              src_ipv4_mask = ipv4_mask_src_ip (mask_conf (fdir_conf dev)),
              dst_ipv4_mask = ipv4_mask_dst_ip (mask_conf (fdir_conf dev)),
              src_ipv6_mask = 0, dst_ipv6_mask = 0,
              src_port_mask = src_port_mask_conf (mask_conf (fdir_conf dev)),
              dst_port_mask = dst_port_mask_conf (mask_conf (fdir_conf dev)),
              flex_bytes_mask = 0 \<rparr>\<rparr>\<rparr>"
      by (auto simp add: txgbe_fdir_store_input_mask_def Let_def split: sum.splits if_splits)
  next
    assume "fst (txgbe_fdir_set_input_mask H dev) \<noteq> ok"
    then show "snd (txgbe_fdir_set_input_mask H dev) = dev"
      by (auto simp add: txgbe_fdir_set_input_mask_def Let_def split: if_splits)
  next
    assume "fst (txgbe_set_fdir_flex_conf H dev flex) \<noteq> ok"
    then show "snd (txgbe_set_fdir_flex_conf H dev flex) = dev"
      by (auto simp add: txgbe_set_fdir_flex_conf_def Let_def split: sum.splits prod.splits)
  next
    assume "mode (fdir_conf dev) \<noteq> RTE_FDIR_MODE_SIGNATURE
              \<and> mode (fdir_conf dev) \<noteq> RTE_FDIR_MODE_PERFECT"
    then show "txgbe_fdir_configure H dev = (Inl ENOSYS, dev)"
      by (simp add: txgbe_fdir_configure_def)
  qed
  have flags: "(\<forall>e. (mode (fdir_conf dev) = RTE_FDIR_MODE_SIGNATURE \<or> mode (fdir_conf dev) = RTE_FDIR_MODE_PERFECT)
          \<and> configure_fdir_flags H (fdir_conf dev) = Inl e
        \<longrightarrow> txgbe_fdir_configure H dev = (Inl e, dev))"
    using txgbe_fdir_configure_flags_fail by blast
  have ipv6: "(\<forall>fdirctrl flex0. (mode (fdir_conf dev) = RTE_FDIR_MODE_SIGNATURE \<or> mode (fdir_conf dev) = RTE_FDIR_MODE_PERFECT)
          \<and> configure_fdir_flags H (fdir_conf dev) = Inr (fdirctrl, flex0)
          \<and> (IPV6_ADDR_TO_MASK (ipv6_mask_src_ip (mask_conf (fdir_conf dev))) = Inl EINVAL
               \<or> IPV6_ADDR_TO_MASK (ipv6_mask_dst_ip (mask_conf (fdir_conf dev))) = Inl EINVAL)
        \<longrightarrow> fst (txgbe_fdir_configure H dev) = Inl EINVAL
          \<and> fdir (snd (txgbe_fdir_configure H dev)) =
              (fdir dev)\<lparr>mask_info :=
          \<lparr> vlan_tci_mask = vlan_tci_mask_conf (mask_conf (fdir_conf dev)),
            src_ipv4_mask = ipv4_mask_src_ip (mask_conf (fdir_conf dev)),
            dst_ipv4_mask = ipv4_mask_dst_ip (mask_conf (fdir_conf dev)),
            src_ipv6_mask = 0, dst_ipv6_mask = 0,
            src_port_mask = src_port_mask_conf (mask_conf (fdir_conf dev)),
            dst_port_mask = dst_port_mask_conf (mask_conf (fdir_conf dev)),
            flex_bytes_mask = 0 \<rparr>\<rparr>)"
    using txgbe_fdir_configure_ipv6_fail[of dev H] by blast
  have later: "(\<forall>fdirctrl flex0 s d e. (mode (fdir_conf dev) = RTE_FDIR_MODE_SIGNATURE \<or> mode (fdir_conf dev) = RTE_FDIR_MODE_PERFECT)
          \<and> configure_fdir_flags H (fdir_conf dev) = Inr (fdirctrl, flex0)
          \<and> IPV6_ADDR_TO_MASK (ipv6_mask_src_ip (mask_conf (fdir_conf dev))) = Inr s
          \<and> IPV6_ADDR_TO_MASK (ipv6_mask_dst_ip (mask_conf (fdir_conf dev))) = Inr d
          \<and> fst (txgbe_fdir_configure H dev) = Inl e
        \<longrightarrow> (e = EINVAL
              \<and> fdir (snd (txgbe_fdir_configure H dev)) =
                  (fdir dev)\<lparr>mask_info :=
          \<lparr> vlan_tci_mask = vlan_tci_mask_conf (mask_conf (fdir_conf dev)),
            src_ipv4_mask = ipv4_mask_src_ip (mask_conf (fdir_conf dev)),
            dst_ipv4_mask = ipv4_mask_dst_ip (mask_conf (fdir_conf dev)),
            src_ipv6_mask = s, dst_ipv6_mask = d,
            src_port_mask = src_port_mask_conf (mask_conf (fdir_conf dev)),
            dst_port_mask = dst_port_mask_conf (mask_conf (fdir_conf dev)),
            flex_bytes_mask = 0 \<rparr>\<rparr>)
          \<or> (e = ETIMEDOUT
              \<and> fdir (snd (txgbe_fdir_configure H dev)) =
                  fdir (snd (txgbe_set_fdir_flex_conf H
                    (dev\<lparr>fdir := (fdir dev)\<lparr>mask_info :=
          \<lparr> vlan_tci_mask = vlan_tci_mask_conf (mask_conf (fdir_conf dev)),
            src_ipv4_mask = ipv4_mask_src_ip (mask_conf (fdir_conf dev)),
            dst_ipv4_mask = ipv4_mask_dst_ip (mask_conf (fdir_conf dev)),
            src_ipv6_mask = s, dst_ipv6_mask = d,
            src_port_mask = src_port_mask_conf (mask_conf (fdir_conf dev)),
            dst_port_mask = dst_port_mask_conf (mask_conf (fdir_conf dev)),
            flex_bytes_mask = 0 \<rparr>\<rparr>\<rparr>) flex0))))"
    using txgbe_fdir_configure_later_fail[of dev H] by blast
  from early flags ipv6 later show ?thesis by (intro conjI) blast+
qed

theorem failed_call_mask_state_witness:
  "mask_info (fdir (snd (txgbe_fdir_store_input_mask
          (set_ipv6_mask_src_ip dev_sample [0xFF, 0xFF, 0x0F, 0, 0, 0, 0, 0, 0, 0, 0, 0, 0, 0, 0, 0]))))
     = \<lparr> vlan_tci_mask = 0xEFFF, src_ipv4_mask = 0xFFFFFFFF, dst_ipv4_mask = 0xFFFFFFFF,
         src_ipv6_mask = 0, dst_ipv6_mask = 0, src_port_mask = 0, dst_port_mask = 0xFFFF,
         flex_bytes_mask = 0 \<rparr>
   \<and> fst (txgbe_fdir_configure txgbe_regs (set_ipv6_mask_src_ip dev_sample [0xFF, 0xFF, 0x0F, 0, 0, 0, 0, 0, 0, 0, 0, 0, 0, 0, 0, 0])) = Inl EINVAL
   \<and> mask_info (fdir (snd (txgbe_fdir_configure txgbe_regs
          (set_ipv6_mask_src_ip dev_sample [0xFF, 0xFF, 0x0F, 0, 0, 0, 0, 0, 0, 0, 0, 0, 0, 0, 0, 0]))))
     = \<lparr> vlan_tci_mask = 0xEFFF, src_ipv4_mask = 0xFFFFFFFF, dst_ipv4_mask = 0xFFFFFFFF,
         src_ipv6_mask = 0, dst_ipv6_mask = 0, src_port_mask = 0, dst_port_mask = 0xFFFF,
         flex_bytes_mask = 0 \<rparr>"
proof -
  let ?d = "set_ipv6_mask_src_ip dev_sample [0xFF, 0xFF, 0x0F, 0, 0, 0, 0, 0, 0, 0, 0, 0, 0, 0, 0, 0]"
  note all = failed_call_mask_state[of ?d txgbe_regs]
  have e: "fst (txgbe_fdir_store_input_mask ?d) = Inl EINVAL"
    by (simp add: txgbe_fdir_store_input_mask_def set_ipv6_mask_src_ip_def dev_sample_def
        IPV6_ADDR_TO_MASK_bad Let_def)
  from all[THEN conjunct2, THEN conjunct1, rule_format, OF e]
  have store: "mask_info (fdir (snd (txgbe_fdir_store_input_mask ?d)))
     = \<lparr> vlan_tci_mask = 0xEFFF, src_ipv4_mask = 0xFFFFFFFF, dst_ipv4_mask = 0xFFFFFFFF,
         src_ipv6_mask = 0, dst_ipv6_mask = 0, src_port_mask = 0, dst_port_mask = 0xFFFF,
         flex_bytes_mask = 0 \<rparr>"
    by (simp add: set_ipv6_mask_src_ip_def dev_sample_def)
  have md: "mode (fdir_conf ?d) = RTE_FDIR_MODE_SIGNATURE \<or> mode (fdir_conf ?d) = RTE_FDIR_MODE_PERFECT"
    by (simp add: set_ipv6_mask_src_ip_def dev_sample_def)
  obtain c f where fl: "configure_fdir_flags txgbe_regs (fdir_conf ?d) = Inr (c, f)"
    by (simp add: configure_fdir_flags_def set_ipv6_mask_src_ip_def dev_sample_def Let_def)
  have bad: "IPV6_ADDR_TO_MASK (ipv6_mask_src_ip (mask_conf (fdir_conf ?d))) = Inl EINVAL"
    by (simp add: set_ipv6_mask_src_ip_def dev_sample_def IPV6_ADDR_TO_MASK_bad)
  from all[THEN conjunct2, THEN conjunct2, THEN conjunct2, THEN conjunct2, THEN conjunct2,
           THEN conjunct2, THEN conjunct1, rule_format, of c f] md fl bad
  have "fst (txgbe_fdir_configure txgbe_regs ?d) = Inl EINVAL"
    and "mask_info (fdir (snd (txgbe_fdir_configure txgbe_regs ?d)))
     = \<lparr> vlan_tci_mask = 0xEFFF, src_ipv4_mask = 0xFFFFFFFF, dst_ipv4_mask = 0xFFFFFFFF,
         src_ipv6_mask = 0, dst_ipv6_mask = 0, src_port_mask = 0, dst_port_mask = 0xFFFF,
         flex_bytes_mask = 0 \<rparr>"
    by (simp_all add: set_ipv6_mask_src_ip_def dev_sample_def)
  with store show ?thesis by simp
qed

text \<open>
  C2 as stated fails: with the third byte of the IPv6 source mask 0x0F the call returns
  \<^verbatim>\<open>-EINVAL\<close>, and the stored masks are no longer the ones held before the call.
\<close>

theorem store_input_mask_overwrites_on_EINVAL:
  "fst (txgbe_fdir_store_input_mask
          (set_ipv6_mask_src_ip dev_sample [0xFF, 0xFF, 0x0F, 0, 0, 0, 0, 0, 0, 0, 0, 0, 0, 0, 0, 0]))
     = Inl EINVAL
   \<and> mask_info (fdir (snd (txgbe_fdir_store_input_mask
          (set_ipv6_mask_src_ip dev_sample [0xFF, 0xFF, 0x0F, 0, 0, 0, 0, 0, 0, 0, 0, 0, 0, 0, 0, 0]))))
     \<noteq> mask_info (fdir (set_ipv6_mask_src_ip dev_sample
                            [0xFF, 0xFF, 0x0F, 0, 0, 0, 0, 0, 0, 0, 0, 0, 0, 0, 0, 0]))"
  by (simp add: txgbe_fdir_store_input_mask_def set_ipv6_mask_src_ip_def dev_sample_def
        IPV6_ADDR_TO_MASK_bad Let_def)

subsection \<open>The flexible bytes\<close>

lemma byte_mask: "(0xFF :: u32) = mask 8"
  by (simp add: mask_eq_exp_minus_1)

lemma slot_merge:
  fixes r v :: u32
  assumes "a < 4" "b < 4"
  shows "drop_bit (8 * a) ((r AND NOT (push_bit (8 * b) (- 1 AND 0xFF))) OR push_bit (8 * b) (v AND 0xFF)) AND 0xFF
         = (if a = b then v AND 0xFF else drop_bit (8 * a) r AND 0xFF)"
proof (cases "a = b")
  case True
  show ?thesis
    unfolding byte_mask using assms True
    by (intro bit_word_eqI) (auto simp add: bit_simps)
next
  case False
  have "\<not> (8 * b \<le> 8 * a + n \<and> 8 * a + n - 8 * b < 8)" if "n < 8" for n
    using that False by presburger
  then show ?thesis
    unfolding byte_mask using assms False
    by (intro bit_word_eqI) (auto simp add: bit_simps)
qed


lemma rd32_FDIRFLEXCFG: "rd32 hw0 (TXGBE_FDIRFLEXCFG k) = (regs hw0 (TXGBE_FDIRFLEXCFG k), hw0)"
  by (simp add: rd32_def)

lemma set_fdir_flex_conf_loop_slots:
  "TXGBE_FDIRFLEXCFG_ALL H = (\<lambda>v i. push_bit (8 * i) (v AND 0xFF)) \<Longrightarrow> j < 64 \<Longrightarrow>
   drop_bit (8 * (j mod 4))
           (regs (set_fdir_flex_conf_loop H flex i hw0) (TXGBE_FDIRFLEXCFG (j div 4))) AND 0xFF
         = (if i \<le> j then flex AND 0xFF
            else drop_bit (8 * (j mod 4)) (regs hw0 (TXGBE_FDIRFLEXCFG (j div 4))) AND 0xFF)"
proof (induction H flex i hw0 rule: set_fdir_flex_conf_loop.induct)
  case (1 H flex i hw0)
  note ALL = "1.prems"(1) and j = "1.prems"(2)
  show ?case
  proof (cases "i < 64")
    case False
    with j show ?thesis by (subst set_fdir_flex_conf_loop.simps) simp
  next
    case True
    let ?v = "(regs hw0 (TXGBE_FDIRFLEXCFG (i div 4)) AND NOT (TXGBE_FDIRFLEXCFG_ALL H (- 1) (i mod 4)))
                OR TXGBE_FDIRFLEXCFG_ALL H flex (i mod 4)"
    let ?hw1 = "wr32 hw0 (TXGBE_FDIRFLEXCFG (i div 4)) ?v"
    let ?slot = "\<lambda>hw'. drop_bit (8 * (j mod 4)) (regs hw' (TXGBE_FDIRFLEXCFG (j div 4))) AND 0xFF"
    have step: "set_fdir_flex_conf_loop H flex i hw0 = set_fdir_flex_conf_loop H flex (i + 1) ?hw1"
      using True by (subst set_fdir_flex_conf_loop.simps) (simp add: rd32_FDIRFLEXCFG Let_def)
    have IH: "?slot (set_fdir_flex_conf_loop H flex (i + 1) ?hw1)
                = (if i + 1 \<le> j then flex AND 0xFF else ?slot ?hw1)"
      using "1.IH"[OF True rd32_FDIRFLEXCFG[symmetric] refl refl ALL j] by simp
    have one: "?slot ?hw1 = (if j = i then flex AND 0xFF else ?slot hw0)"
    proof (cases "j div 4 = i div 4")
      case False
      then have "j \<noteq> i" by auto
      with False show ?thesis by (simp add: wr32_def)
    next
      case same: True
      have ji: "j = i \<longleftrightarrow> j mod 4 = i mod 4"
        using same by (metis div_mult_mod_eq)
      have "?slot ?hw1 = drop_bit (8 * (j mod 4)) ?v AND 0xFF"
        using same by (simp add: wr32_def)
      also have "\<dots> = (if j mod 4 = i mod 4 then flex AND 0xFF
                        else drop_bit (8 * (j mod 4)) (regs hw0 (TXGBE_FDIRFLEXCFG (i div 4))) AND 0xFF)"
        unfolding ALL by (rule slot_merge) simp_all
      finally show ?thesis using same ji by simp
    qed
    show ?thesis
      unfolding step IH one by (cases "j = i") auto
  qed
qed

lemma set_fdir_flex_conf_loop_other:
  "fdirctl_status (set_fdir_flex_conf_loop H flex i hw0) = fdirctl_status hw0
   \<and> fdirctl_reads (set_fdir_flex_conf_loop H flex i hw0) = fdirctl_reads hw0
   \<and> msec_slept (set_fdir_flex_conf_loop H flex i hw0) = msec_slept hw0"
  by (induction H flex i hw0 rule: set_fdir_flex_conf_loop.induct)
     (subst (1 2 3) set_fdir_flex_conf_loop.simps, simp add: rd32_FDIRFLEXCFG wr32_def Let_def)

lemma set_flexbytes_offset_loop_other:
  "fdirctl_status (set_flexbytes_offset_loop H offset i hw0) = fdirctl_status hw0
   \<and> fdirctl_reads (set_flexbytes_offset_loop H offset i hw0) = fdirctl_reads hw0
   \<and> msec_slept (set_flexbytes_offset_loop H offset i hw0) = msec_slept hw0"
  by (induction H offset i hw0 rule: set_flexbytes_offset_loop.induct)
     (subst (1 2 3) set_flexbytes_offset_loop.simps, simp add: rd32_FDIRFLEXCFG wr32_def Let_def)

lemma flex_payload_loop_single:
  "flex_payload_loop H [d] f = Inl EINVAL \<longleftrightarrow> \<not> flex_payload_ok d"
  by (auto simp add: flex_payload_ok_def)

lemma flex_payload_loop_ok:
  "list_all flex_payload_ok ds \<Longrightarrow> \<exists>f'. flex_payload_loop H ds f = Inr f'"
  by (induction ds arbitrary: f) (auto simp add: flex_payload_ok_def)

lemma flex_payload_loop_DIA:
  "list_all flex_payload_ok ds \<Longrightarrow> flex_payload_loop H ds f = Inr f' \<Longrightarrow>
   TXGBE_FDIRFLEXCFG_DIA H AND TXGBE_FDIRFLEXCFG_OFST_MASK H = 0 \<Longrightarrow>
   f AND TXGBE_FDIRFLEXCFG_DIA H = TXGBE_FDIRFLEXCFG_DIA H \<Longrightarrow>
   f' AND TXGBE_FDIRFLEXCFG_DIA H = TXGBE_FDIRFLEXCFG_DIA H"
proof (induction ds arbitrary: f)
  case Nil
  then show ?case by simp
next
  case (Cons d ds)
  let ?g = "(f AND NOT (TXGBE_FDIRFLEXCFG_OFST_MASK H))
              OR TXGBE_FDIRFLEXCFG_OFST H (ucast (src_offset d ! 0) div 2)"
  from Cons.prems(1) have d: "flex_payload_ok d" and ds: "list_all flex_payload_ok ds"
    by simp_all
  from d Cons.prems(2) have g: "flex_payload_loop H ds ?g = Inr f'"
    by (simp add: flex_payload_ok_def)
  note rest = ds g
  have "?g AND TXGBE_FDIRFLEXCFG_DIA H = TXGBE_FDIRFLEXCFG_DIA H"
  proof (rule bit_word_eqI)
    fix n assume "n < LENGTH(32)"
    then have n: "n < 32" by simp
    have a: "bit (TXGBE_FDIRFLEXCFG_DIA H) n \<Longrightarrow> \<not> bit (TXGBE_FDIRFLEXCFG_OFST_MASK H) n"
      using Cons.prems(3) by (metis bit_and_iff bit_0_eq zero_word_def bit.conj_cancel_right bit_and_iff bit_not_iff)
    have b: "bit (TXGBE_FDIRFLEXCFG_DIA H) n \<Longrightarrow> bit f n"
      using Cons.prems(4) by (metis bit_and_iff)
    show "bit (?g AND TXGBE_FDIRFLEXCFG_DIA H) n = bit (TXGBE_FDIRFLEXCFG_DIA H) n"
      using a b n by (auto simp add: bit_simps)
  qed
  from Cons.IH[OF rest Cons.prems(3) this] show ?case .
qed


lemma flex_payload_loop_same_offset:
  assumes "flex_payload_ok d1" "flex_payload_ok d2" "src_offset d1 ! 0 = src_offset d2 ! 0"
  shows "flex_payload_loop H [d1, d2] f = flex_payload_loop H [d1] f"
proof -
  have "((f AND NOT m) OR v) AND NOT m OR v = (f AND NOT m) OR v" for m v :: u32
    by (rule bit_word_eqI) (auto simp add: bit_simps)
  with assms show ?thesis by (simp add: flex_payload_ok_def)
qed

lemma flex_payload_loop_last_offset:
  assumes "flex_payload_ok d1" "flex_payload_ok d2"
    and "\<forall>v. TXGBE_FDIRFLEXCFG_OFST H v AND NOT (TXGBE_FDIRFLEXCFG_OFST_MASK H) = 0"
  shows "flex_payload_loop H [d1, d2] f = flex_payload_loop H [d2] f"
proof -
  have "((f AND NOT m) OR v1) AND NOT m OR v2 = (f AND NOT m) OR v2" if "v1 AND NOT m = 0"
    for m v1 v2 :: u32
  proof -
    have "((f AND NOT m) OR v1) AND NOT m = (f AND NOT m) OR (v1 AND NOT m)"
      by (rule bit_word_eqI) (auto simp add: bit_simps)
    with that show ?thesis by simp
  qed
  with assms show ?thesis by (simp add: flex_payload_ok_def)
qed

lemma flex_mask_loop_status:
  "(\<exists>e. flex_mask_loop H ms f b = Inl e) \<longleftrightarrow> (\<exists>e. flex_mask_loop H ms f' b' = Inl e)"
  by (induction ms arbitrary: f b f' b') (auto simp add: Let_def)

lemma txgbe_set_fdir_flex_conf_status:
  "fst (txgbe_set_fdir_flex_conf H dev flex0) =
     (case flex_payload_loop H (flex_set (flex_conf (fdir_conf dev))) (flex0 OR TXGBE_FDIRFLEXCFG_DIA H) of
        Inl e \<Rightarrow> Inl e
      | Inr flex2 \<Rightarrow>
         (case flex_mask_loop H (flex_mask (flex_conf (fdir_conf dev))) flex2 0 of
            Inl e \<Rightarrow> Inl e | Inr r \<Rightarrow> ok))"
  by (simp add: txgbe_set_fdir_flex_conf_def Let_def split: sum.splits prod.splits)

lemma txgbe_set_fdir_flex_conf_payloads_cong:
  assumes "flex_payload_loop H ds (flex OR TXGBE_FDIRFLEXCFG_DIA H)
             = flex_payload_loop H ds' (flex OR TXGBE_FDIRFLEXCFG_DIA H)"
  shows "fst (txgbe_set_fdir_flex_conf H (set_flex_set dev ds) flex)
           = fst (txgbe_set_fdir_flex_conf H (set_flex_set dev ds') flex)
       \<and> hw (snd (txgbe_set_fdir_flex_conf H (set_flex_set dev ds) flex))
           = hw (snd (txgbe_set_fdir_flex_conf H (set_flex_set dev ds') flex))
       \<and> fdir (snd (txgbe_set_fdir_flex_conf H (set_flex_set dev ds) flex))
           = fdir (snd (txgbe_set_fdir_flex_conf H (set_flex_set dev ds') flex))"
  using assms
  by (simp add: txgbe_set_fdir_flex_conf_def set_flex_set_def Let_def
           split: sum.splits prod.splits del: flex_payload_loop.simps)

text \<open>
  C1 (as amended). \<^verbatim>\<open>txgbe_set_fdir_flex_conf\<close> does not compare the offsets of the
  payload descriptors. With two descriptors that are each valid it fails exactly when
  it fails with none, so it returns 0 when there is no mask descriptor, also when the
  two offsets differ. When the two offsets are equal, the status, the registers and the
  stored masks are those of a call with the one descriptor. When every value of
  \<^verbatim>\<open>TXGBE_FDIRFLEXCFG_OFST\<close> lies within \<^verbatim>\<open>TXGBE_FDIRFLEXCFG_OFST_MASK\<close>, they are those
  of a call with the second descriptor alone: the later offset replaces the earlier.
\<close>

theorem txgbe_set_fdir_flex_conf_two_payloads:
  assumes "flex_payload_ok d1" and "flex_payload_ok d2"
  shows "fst (txgbe_set_fdir_flex_conf H (set_flex_set dev [d1, d2]) flex)
           = fst (txgbe_set_fdir_flex_conf H (set_flex_set dev []) flex)
       \<and> (flex_mask (flex_conf (fdir_conf dev)) = [] \<longrightarrow>
            fst (txgbe_set_fdir_flex_conf H (set_flex_set dev [d1, d2]) flex) = ok)
       \<and> (src_offset d1 ! 0 = src_offset d2 ! 0 \<longrightarrow>
            fst (txgbe_set_fdir_flex_conf H (set_flex_set dev [d1, d2]) flex)
              = fst (txgbe_set_fdir_flex_conf H (set_flex_set dev [d1]) flex)
            \<and> hw (snd (txgbe_set_fdir_flex_conf H (set_flex_set dev [d1, d2]) flex))
              = hw (snd (txgbe_set_fdir_flex_conf H (set_flex_set dev [d1]) flex))
            \<and> fdir (snd (txgbe_set_fdir_flex_conf H (set_flex_set dev [d1, d2]) flex))
              = fdir (snd (txgbe_set_fdir_flex_conf H (set_flex_set dev [d1]) flex)))
       \<and> ((\<forall>v. TXGBE_FDIRFLEXCFG_OFST H v AND NOT (TXGBE_FDIRFLEXCFG_OFST_MASK H) = 0) \<longrightarrow>
            fst (txgbe_set_fdir_flex_conf H (set_flex_set dev [d1, d2]) flex)
              = fst (txgbe_set_fdir_flex_conf H (set_flex_set dev [d2]) flex)
            \<and> hw (snd (txgbe_set_fdir_flex_conf H (set_flex_set dev [d1, d2]) flex))
              = hw (snd (txgbe_set_fdir_flex_conf H (set_flex_set dev [d2]) flex))
            \<and> fdir (snd (txgbe_set_fdir_flex_conf H (set_flex_set dev [d1, d2]) flex))
              = fdir (snd (txgbe_set_fdir_flex_conf H (set_flex_set dev [d2]) flex)))"
proof -
  let ?f = "flex OR TXGBE_FDIRFLEXCFG_DIA H"
  let ?ms = "flex_mask (flex_conf (fdir_conf dev))"
  from assms have "list_all flex_payload_ok [d1, d2]" by simp
  from flex_payload_loop_ok[OF this] obtain f' where f': "flex_payload_loop H [d1, d2] ?f = Inr f'"
    by blast
  have status: "fst (txgbe_set_fdir_flex_conf H (set_flex_set dev [d1, d2]) flex)
           = fst (txgbe_set_fdir_flex_conf H (set_flex_set dev []) flex)"
  proof (cases "\<exists>e. flex_mask_loop H ?ms f' 0 = Inl e")
    case True
    then obtain e where e: "flex_mask_loop H ?ms f' 0 = Inl e" by blast
    from True flex_mask_loop_status[of H ?ms f' 0 ?f 0]
    obtain e' where e': "flex_mask_loop H ?ms ?f 0 = Inl e'" by blast
    from e e' flex_mask_loop_error[OF e] flex_mask_loop_error[OF e'] f' show ?thesis
      by (simp add: txgbe_set_fdir_flex_conf_status set_flex_set_def del: flex_payload_loop.simps(2))
  next
    case False
    with flex_mask_loop_status[of H ?ms f' 0 ?f 0]
    have "\<not> (\<exists>e. flex_mask_loop H ?ms ?f 0 = Inl e)" by simp
    with False f' show ?thesis
      by (auto simp add: txgbe_set_fdir_flex_conf_status set_flex_set_def 
               split: sum.splits simp del: flex_payload_loop.simps(2))
  qed
  have none: "fst (txgbe_set_fdir_flex_conf H (set_flex_set dev [d1, d2]) flex) = ok" if "?ms = []"
    using that f'
    by (simp add: txgbe_set_fdir_flex_conf_status set_flex_set_def del: flex_payload_loop.simps)
  note same = txgbe_set_fdir_flex_conf_payloads_cong
                [OF flex_payload_loop_same_offset[OF assms, of H ?f], of dev]
  note last = txgbe_set_fdir_flex_conf_payloads_cong
                [OF flex_payload_loop_last_offset[OF assms, of H ?f], of dev]
  from status none same last show ?thesis by blast
qed

theorem txgbe_set_fdir_flex_conf_two_payloads_witness:
  "fst (txgbe_set_fdir_flex_conf txgbe_regs
          (set_flex_set dev_sample [raw_payload 4, raw_payload 4]) 0) = ok
   \<and> fdir (snd (txgbe_set_fdir_flex_conf txgbe_regs
          (set_flex_set dev_sample [raw_payload 4, raw_payload 4]) 0))
     = fdir (snd (txgbe_set_fdir_flex_conf txgbe_regs
          (set_flex_set dev_sample [raw_payload 4]) 0))"
proof -
  have p: "flex_payload_ok (raw_payload 4)"
    by (simp add: flex_payload_ok_def raw_payload_def TXGBE_MAX_FLX_SOURCE_OFF_def)
  have m: "flex_mask (flex_conf (fdir_conf dev_sample)) = []"
    by (simp add: dev_sample_def)
  from txgbe_set_fdir_flex_conf_two_payloads[OF p p, of txgbe_regs dev_sample 0] m
  show ?thesis by blast
qed

text \<open>
  C1 as stated fails: the descriptors for the offsets 0 and 2 are each valid and differ,
  and the call returns 0, leaving the offset 2 in \<^verbatim>\<open>info->flex_bytes_offset\<close>.
\<close>

theorem txgbe_set_fdir_flex_conf_two_offsets_accepted:
  "flex_payload_ok (raw_payload 0) \<and> flex_payload_ok (raw_payload 2)
   \<and> src_offset (raw_payload 0) ! 0 \<noteq> src_offset (raw_payload 2) ! 0
   \<and> fst (txgbe_set_fdir_flex_conf txgbe_regs
            (set_flex_set dev_sample [raw_payload 0, raw_payload 2]) 0) = ok
   \<and> flex_bytes_offset (fdir (snd (txgbe_set_fdir_flex_conf txgbe_regs
            (set_flex_set dev_sample [raw_payload 0, raw_payload 2]) 0))) = 2"
  by (simp add: flex_payload_ok_def raw_payload_def TXGBE_MAX_FLX_SOURCE_OFF_def
        txgbe_set_fdir_flex_conf_def set_flex_set_def dev_sample_def txgbe_regs_def Let_def)

text \<open>
  C10. Let a slot be one byte of a flexible-byte register, the ignore bit
  \<^verbatim>\<open>TXGBE_FDIRFLEXCFG_DIA\<close> lie in that byte and outside
  \<^verbatim>\<open>TXGBE_FDIRFLEXCFG_OFST_MASK\<close>. With no mask descriptor and every payload descriptor
  valid, \<^verbatim>\<open>txgbe_set_fdir_flex_conf\<close> returns 0, stores 0 in
  \<^verbatim>\<open>info->mask.flex_bytes_mask\<close>, and leaves the ignore bit set in each of the 64 slots.
\<close>

theorem txgbe_set_fdir_flex_conf_no_masks:
  assumes nomask: "flex_mask (flex_conf (fdir_conf dev)) = []"
    and valid: "list_all flex_payload_ok (flex_set (flex_conf (fdir_conf dev)))"
    and ALL: "TXGBE_FDIRFLEXCFG_ALL H = (\<lambda>v i. push_bit (8 * i) (v AND 0xFF))"
    and disj: "TXGBE_FDIRFLEXCFG_DIA H AND TXGBE_FDIRFLEXCFG_OFST_MASK H = 0"
    and byte: "TXGBE_FDIRFLEXCFG_DIA H AND 0xFF = TXGBE_FDIRFLEXCFG_DIA H"
  shows "fst (txgbe_set_fdir_flex_conf H dev flex) = ok
       \<and> flex_bytes_mask (mask_info (fdir (snd (txgbe_set_fdir_flex_conf H dev flex)))) = 0
       \<and> (\<forall>j < 64. drop_bit (8 * (j mod 4))
                       (regs (hw (snd (txgbe_set_fdir_flex_conf H dev flex)))
                             (TXGBE_FDIRFLEXCFG (j div 4)))
                     AND TXGBE_FDIRFLEXCFG_DIA H = TXGBE_FDIRFLEXCFG_DIA H)"
proof -
  let ?D = "TXGBE_FDIRFLEXCFG_DIA H"
  from flex_payload_loop_ok[OF valid] obtain f' where
    f': "flex_payload_loop H (flex_set (flex_conf (fdir_conf dev))) (flex OR ?D) = Inr f'"
    by blast
  have "(flex OR ?D) AND ?D = ?D"
    by (rule bit_word_eqI) (auto simp add: bit_simps)
  from flex_payload_loop_DIA[OF valid f' disj this] have dia: "f' AND ?D = ?D" .
  have res: "txgbe_set_fdir_flex_conf H dev flex =
      (ok, dev\<lparr>hw := set_fdir_flex_conf_loop H f' 0 (hw dev),
               fdir := (fdir dev)\<lparr>mask_info := (mask_info (fdir dev))\<lparr>flex_bytes_mask := 0\<rparr>,
                                   flex_bytes_offset := ucast (TXGBD_FDIRFLEXCFG_OFST H f' * 2)\<rparr>\<rparr>)"
    by (simp add: txgbe_set_fdir_flex_conf_def Let_def f' nomask)
  have slot: "drop_bit (8 * (j mod 4))
                (regs (set_fdir_flex_conf_loop H f' 0 (hw dev)) (TXGBE_FDIRFLEXCFG (j div 4))) AND ?D = ?D"
    if j: "j < 64" for j
  proof -
    let ?r = "drop_bit (8 * (j mod 4))
                (regs (set_fdir_flex_conf_loop H f' 0 (hw dev)) (TXGBE_FDIRFLEXCFG (j div 4)))"
    have "?r AND ?D = ?r AND (0xFF AND ?D)"
      using byte by (simp add: and.commute)
    also have "\<dots> = (?r AND 0xFF) AND ?D"
      by (simp add: and.assoc)
    also have "\<dots> = (f' AND 0xFF) AND ?D"
      using set_fdir_flex_conf_loop_slots[OF ALL j, of f' 0 "hw dev"] by simp
    also have "\<dots> = f' AND (0xFF AND ?D)"
      by (simp add: and.assoc)
    also have "\<dots> = ?D"
      using byte dia by (simp add: and.commute)
    finally show ?thesis .
  qed
  show ?thesis
    using slot by (simp add: res)
qed

theorem txgbe_set_fdir_flex_conf_no_masks_witness:
  "fst (txgbe_set_fdir_flex_conf txgbe_regs (set_flex_set dev_sample [raw_payload 4]) 0) = ok
   \<and> flex_bytes_mask (mask_info (fdir (snd
        (txgbe_set_fdir_flex_conf txgbe_regs (set_flex_set dev_sample [raw_payload 4]) 0)))) = 0
   \<and> drop_bit 8 (regs (hw (snd
        (txgbe_set_fdir_flex_conf txgbe_regs (set_flex_set dev_sample [raw_payload 4]) 0)))
        (TXGBE_FDIRFLEXCFG 1)) AND 0x4 = 0x4"
proof -
  let ?dev = "set_flex_set dev_sample [raw_payload 4]"
  have m: "flex_mask (flex_conf (fdir_conf ?dev)) = []"
    by (simp add: set_flex_set_def dev_sample_def)
  have v: "list_all flex_payload_ok (flex_set (flex_conf (fdir_conf ?dev)))"
    by (simp add: set_flex_set_def flex_payload_ok_def raw_payload_def TXGBE_MAX_FLX_SOURCE_OFF_def)
  have a: "TXGBE_FDIRFLEXCFG_ALL txgbe_regs = (\<lambda>v i. push_bit (8 * i) (v AND 0xFF))"
    by (simp add: txgbe_regs_def)
  have d: "TXGBE_FDIRFLEXCFG_DIA txgbe_regs AND TXGBE_FDIRFLEXCFG_OFST_MASK txgbe_regs = 0"
    by (simp add: txgbe_regs_def)
  have b: "TXGBE_FDIRFLEXCFG_DIA txgbe_regs AND 0xFF = TXGBE_FDIRFLEXCFG_DIA txgbe_regs"
    by (simp add: txgbe_regs_def)
  have dia: "TXGBE_FDIRFLEXCFG_DIA txgbe_regs = 0x4"
    by (simp add: txgbe_regs_def)
  from txgbe_set_fdir_flex_conf_no_masks[OF m v a d b, of 0]
  have "fst (txgbe_set_fdir_flex_conf txgbe_regs ?dev 0) = ok"
    and "flex_bytes_mask (mask_info (fdir (snd (txgbe_set_fdir_flex_conf txgbe_regs ?dev 0)))) = 0"
    and s: "\<forall>j < 64. drop_bit (8 * (j mod 4))
                       (regs (hw (snd (txgbe_set_fdir_flex_conf txgbe_regs ?dev 0)))
                             (TXGBE_FDIRFLEXCFG (j div 4)))
                     AND TXGBE_FDIRFLEXCFG_DIA txgbe_regs = TXGBE_FDIRFLEXCFG_DIA txgbe_regs"
    by blast+
  moreover from s[rule_format, of 5] have "drop_bit 8 (regs (hw (snd
        (txgbe_set_fdir_flex_conf txgbe_regs ?dev 0))) (TXGBE_FDIRFLEXCFG 1)) AND 0x4 = 0x4"
    by (simp add: dia)
  ultimately show ?thesis by blast
qed

text \<open>
  C9. \<^verbatim>\<open>txgbe_fdir_set_flexbytes_offset\<close> returns 0 for every offset and every device.
  When none of the \<^verbatim>\<open>TXGBE_FDIR_INIT_DONE_POLL\<close> reads of the control register shows
  the init-done bit it has made all of them, slept a millisecond after each, and still
  returns 0.
\<close>

theorem txgbe_fdir_set_flexbytes_offset_returns_0:
  "fst (txgbe_fdir_set_flexbytes_offset H dev offset) = ok
   \<and> ((\<forall>j < TXGBE_FDIR_INIT_DONE_POLL H.
          fdirctl_status (hw dev) (fdirctl_reads (hw dev) + j) AND TXGBE_FDIRCTL_INITDONE H = 0)
      \<longrightarrow> fdirctl_reads (hw (snd (txgbe_fdir_set_flexbytes_offset H dev offset)))
            = fdirctl_reads (hw dev) + TXGBE_FDIR_INIT_DONE_POLL H
          \<and> msec_slept (hw (snd (txgbe_fdir_set_flexbytes_offset H dev offset)))
            = msec_slept (hw dev) + TXGBE_FDIR_INIT_DONE_POLL H)"
proof -
  let ?N = "TXGBE_FDIR_INIT_DONE_POLL H"
  let ?hw1 = "set_flexbytes_offset_loop H offset 0 (hw dev)"
  obtain i' hw' where p: "fdir_init_done_poll H 0 ?hw1 = (i', hw')"
    by (cases "fdir_init_done_poll H 0 ?hw1") auto
  have res: "txgbe_fdir_set_flexbytes_offset H dev offset = (ok, dev\<lparr>hw := hw'\<rparr>)"
    by (simp add: txgbe_fdir_set_flexbytes_offset_def txgbe_flush_def Let_def p)
  note frame = set_flexbytes_offset_loop_other[of H offset 0 "hw dev"]
  from fdir_init_done_poll_spec[OF p] frame have
    le: "i' \<le> ?N" and
    slept: "msec_slept hw' = msec_slept (hw dev) + i'" and
    at: "i' < ?N \<Longrightarrow>
          fdirctl_status (hw dev) (fdirctl_reads (hw dev) + i') AND TXGBE_FDIRCTL_INITDONE H \<noteq> 0" and
    reads: "\<not> i' < ?N \<Longrightarrow> fdirctl_reads hw' = fdirctl_reads (hw dev) + i'"
    by simp_all
  have "fdirctl_reads hw' = fdirctl_reads (hw dev) + ?N \<and> msec_slept hw' = msec_slept (hw dev) + ?N"
    if never: "\<forall>j < ?N. fdirctl_status (hw dev) (fdirctl_reads (hw dev) + j)
                          AND TXGBE_FDIRCTL_INITDONE H = 0"
  proof -
    from never at have "\<not> i' < ?N" by blast
    with le reads slept show ?thesis by simp
  qed
  then show ?thesis by (simp add: res)
qed

theorem txgbe_fdir_set_flexbytes_offset_returns_0_witness:
  "fst (txgbe_fdir_set_flexbytes_offset txgbe_regs (set_hw dev_sample (hw_init_done_after 11)) 12) = ok
   \<and> fdirctl_reads (hw (snd (txgbe_fdir_set_flexbytes_offset txgbe_regs
                               (set_hw dev_sample (hw_init_done_after 11)) 12))) = 10
   \<and> msec_slept (hw (snd (txgbe_fdir_set_flexbytes_offset txgbe_regs
                               (set_hw dev_sample (hw_init_done_after 11)) 12))) = 10"
  using txgbe_fdir_set_flexbytes_offset_returns_0
          [of txgbe_regs "set_hw dev_sample (hw_init_done_after 11)" 12]
  by (simp add: set_hw_def hw_init_done_after_def txgbe_regs_def)

end
